theory Spec2Isabelle
  imports Complex_Main "HOL-Library.AList" "HOL-Library.Sublist" "HOL-Library.Word"
begin

section \<open>JavaScript values and strings\<close>

text \<open>
  The example value (\<open>sampleObj\<close>), the decoded \<open>data\<close> of a completion and the
  schema handed to Gemini are untyped JavaScript data. They are modelled by one datatype:
  \<open>undefined\<close>, \<open>null\<close>, booleans, numbers (with \<open>NaN\<close> apart), strings, arrays and
  plain objects. An object is the list of its own enumerable properties in enumeration
  order. Strings are lists of 8-bit characters (the output document of a batch apart, see
  \<open>js_trim\<close>).
\<close>

datatype jsvalue =
    JUndefined
  | JNull
  | JBool bool
  | JNum real
  | JNaN
  | JStr string
  | JArr "jsvalue list"
  | JObj "(string \<times> jsvalue) list"

text \<open>The \<open>typeof\<close> operator.\<close>

fun js_typeof :: "jsvalue \<Rightarrow> string" where
  "js_typeof JUndefined = ''undefined''"
| "js_typeof JNull = ''object''"
| "js_typeof (JBool b) = ''boolean''"
| "js_typeof (JNum x) = ''number''"
| "js_typeof JNaN = ''number''"
| "js_typeof (JStr s) = ''string''"
| "js_typeof (JArr xs) = ''object''"
| "js_typeof (JObj kvs) = ''object''"

text \<open>
  Truthiness, as \<open>&&\<close>, \<open>||\<close>, \<open>!\<close> and \<open>if\<close> read a value: \<open>undefined\<close>, \<open>null\<close>,
  \<open>false\<close>, \<open>0\<close>, \<open>NaN\<close> and the empty string are falsy, everything else is truthy.
\<close>

fun truthy :: "jsvalue \<Rightarrow> bool" where
  "truthy JUndefined = False"
| "truthy JNull = False"
| "truthy (JBool b) = b"
| "truthy (JNum x) = (x \<noteq> 0)"
| "truthy JNaN = False"
| "truthy (JStr s) = (s \<noteq> [])"
| "truthy (JArr xs) = True"
| "truthy (JObj kvs) = True"

text \<open>An optional string property (\<open>string | undefined\<close>) in a boolean position.\<close>

fun truthy_str :: "string option \<Rightarrow> bool" where
  "truthy_str None = False"
| "truthy_str (Some s) = (s \<noteq> [])"

text \<open>An optional number property (\<open>number | undefined\<close>) in a boolean position.\<close>

fun truthy_num :: "real option \<Rightarrow> bool" where
  "truthy_num None = False"
| "truthy_num (Some x) = (x \<noteq> 0)"

text \<open>\<open>a || b\<close> on optional strings.\<close>

definition or_str :: "string option \<Rightarrow> string option \<Rightarrow> string option" where
  "or_str a b = (if truthy_str a then a else b)"

text \<open>\<open>String.prototype.toLowerCase\<close> on ASCII letters; other characters stay.\<close>

definition lower_char :: "char \<Rightarrow> char" where
  "lower_char c =
     (case map_of (zip ''ABCDEFGHIJKLMNOPQRSTUVWXYZ'' ''abcdefghijklmnopqrstuvwxyz'') c of
        Some d \<Rightarrow> d
      | None \<Rightarrow> c)"

definition toLowerCase :: "string \<Rightarrow> string" where
  "toLowerCase s = map lower_char s"

text \<open>\<open>s.includes(t)\<close>: \<open>t\<close> occurs in \<open>s\<close> as a contiguous run.\<close>

fun js_includes :: "string \<Rightarrow> string \<Rightarrow> bool" where
  "js_includes [] t = (t = [])"
| "js_includes (c # s) t = (prefix t (c # s) \<or> js_includes s t)"

text \<open>\<open>s.replace(/[^a-zA-Z0-9]/g, '')\<close>: only ASCII letters and digits are kept.\<close>

definition alnum_char :: "char \<Rightarrow> bool" where
  "alnum_char c =
     (c \<in> set ''abcdefghijklmnopqrstuvwxyzABCDEFGHIJKLMNOPQRSTUVWXYZ0123456789'')"

definition strip_non_alnum :: "string \<Rightarrow> string" where
  "strip_non_alnum s = filter alnum_char s"

text \<open>\<open>s.split(sep)\<close> for a one-character separator, and \<open>parts.join(sep)\<close>.\<close>

fun js_split :: "'a \<Rightarrow> 'a list \<Rightarrow> 'a list list" where
  "js_split sep [] = [[]]"
| "js_split sep (c # cs) =
     (if c = sep then [] # js_split sep cs
      else (case js_split sep cs of
              [] \<Rightarrow> [[c]]
            | p # ps \<Rightarrow> (c # p) # ps))"

fun js_join :: "string \<Rightarrow> string list \<Rightarrow> string" where
  "js_join sep [] = []"
| "js_join sep [p] = p"
| "js_join sep (p # q # ps) = p @ sep @ js_join sep (q # ps)"

text \<open>
  \<open>String.prototype.trim\<close> removes white space and line terminators from both ends of a
  string, and ECMAScript counts as such code points that no 8-bit character holds: beside
  tab, line feed, vertical tab, form feed, carriage return and space, the no-break space
  U+00A0, the byte order mark U+FEFF, the separators U+2028 and U+2029 and the other
  spaces of Unicode. The one text the code trims is the output document of a batch, so
  that text is kept as the list of its UTF-16 code units; \<open>code_units\<close> reads a string of
  8-bit characters as code units.
\<close>

type_synonym code_unit = "16 word"

definition code_units :: "string \<Rightarrow> code_unit list" where
  "code_units s = map of_char s"

definition js_space :: "code_unit \<Rightarrow> bool" where
  "js_space u =
     (u \<in> set [0x0009, 0x000A, 0x000B, 0x000C, 0x000D, 0x0020, 0x00A0, 0x1680,
               0x2000, 0x2001, 0x2002, 0x2003, 0x2004, 0x2005, 0x2006, 0x2007,
               0x2008, 0x2009, 0x200A, 0x2028, 0x2029, 0x202F, 0x205F, 0x3000, 0xFEFF])"

definition js_trim :: "code_unit list \<Rightarrow> code_unit list" where
  "js_trim s = rev (dropWhile js_space (rev (dropWhile js_space s)))"

text \<open>A number in a template literal, for the non-negative integers the code prints.\<close>

definition digit_char :: "nat \<Rightarrow> char" where
  "digit_char d = ''0123456789'' ! d"

fun string_of_nat :: "nat \<Rightarrow> string" where
  "string_of_nat n =
     (if n < 10 then [digit_char n] else string_of_nat (n div 10) @ [digit_char (n mod 10)])"

declare string_of_nat.simps [simp del]

section \<open>The shared types (types.ts)\<close>

datatype Provider = Google | OpenAI

definition provider_name :: "Provider \<Rightarrow> string" where
  "provider_name p = (case p of Google \<Rightarrow> ''google'' | OpenAI \<Rightarrow> ''openai'')"

text \<open>
  \<open>ModelName\<close> is a string enum; at run time a model name is any string (the agent
  splits it off its \<open>"provider/model"\<close> key), so the lookups below compare strings.
\<close>

type_synonym ModelName = string

definition Gemini2Flash :: ModelName where "Gemini2Flash = ''Gemini 2.0 Flash''"
definition Gemini15 :: ModelName where "Gemini15 = ''Gemini 1.5''"
definition GPT4oMini :: ModelName where "GPT4oMini = ''GPT-4o-mini''"

record ModelCapabilities =
  structuredOutput :: bool
  batchRequests :: bool

record ModelInfo =
  info_id :: string
  info_name :: ModelName
  info_provider :: Provider
  capabilities :: ModelCapabilities

record UsageInfo =
  promptTokens :: nat
  completionTokens :: nat
  totalTokens :: nat

record CompletionResponse =
  completion_text :: string
  data :: jsvalue
  usage :: UsageInfo
  completion_model :: string
  completion_provider :: Provider

record BatchStatus =
  status_id :: string
  status :: string
  outputFileId :: "string option"
  status_error :: "string option"

datatype Role = Developer | User | Assistant

definition role_name :: "Role \<Rightarrow> string" where
  "role_name r = (case r of Developer \<Rightarrow> ''developer'' | User \<Rightarrow> ''user'' | Assistant \<Rightarrow> ''assistant'')"

record PromptMessage =
  role :: Role
  content :: string

text \<open>
  \<open>LLMRequestOptions\<close> and its extension \<open>BatchRequestOptions\<close>. An absent optional
  property is \<open>None\<close>; an absent \<open>sampleObj\<close> is \<open>JUndefined\<close>. \<open>priority\<close> and
  \<open>failureThreshold\<close> are read nowhere and are left out.
\<close>

record LLMRequestOptions =
  temperature :: "real option"
  topK :: "real option"
  topP :: "real option"
  maxTokens :: "real option"
  frequencyPenalty :: "real option"
  presencePenalty :: "real option"
  sampleObj :: jsvalue
  agentName :: "string option"
  user :: "string option"
  seed :: "real option"
  providerParams :: "(string \<times> jsvalue) list option"

record BatchRequestOptions = LLMRequestOptions +
  batchName :: "string option"
  timeoutSeconds :: "real option"

text \<open>
  One item of a batch, as OpenAIProvider.createBatch reads it: an optional \<open>id\<close> and
  the item's messages.
\<close>

record BatchRequest =
  request_id :: "string option"
  messages :: "PromptMessage list"

record CreateBatchResponse =
  requestIds :: "string list"
  batchId :: string

section \<open>Errors and the transport\<close>

text \<open>
  Every \<open>throw new Error(msg)\<close> of the source is the value \<open>Error msg\<close>; reading a
  property of \<open>undefined\<close> (the first element of an empty array, then a field of it) is
  \<open>TypeError\<close>. An operation returns \<open>Inl\<close> of the error it throws or \<open>Inr\<close> of its result.
\<close>

datatype error = Error string | TypeError

text \<open>The wire types of the two backends: the fields the code writes or reads.\<close>

record OpenAI_message =
  wire_role :: string
  wire_content :: string

record ChatCompletionRequest =
  chat_model :: string
  chat_messages :: "OpenAI_message list"
  chat_temperature :: "real option"
  max_tokens :: "real option"
  top_p :: "real option"
  frequency_penalty :: "real option"
  presence_penalty :: "real option"
  response_format :: "string option"
  chat_user :: "string option"
  chat_seed :: jsvalue

record ChatUsage =
  prompt_tokens :: nat
  completion_tokens :: nat
  total_tokens :: nat

record ChatCompletionResponse =
  choices :: "OpenAI_message list"
  chat_usage :: ChatUsage

record FileUploadResponse =
  file_id :: string

record BatchStatusResponse =
  batch_id :: string
  batch_status :: string
  output_file_id :: "string option"
  error_file_id :: "string option"

record OpenAI_BatchRequest =
  custom_id :: string
  batch_method :: string
  batch_url :: string
  batch_body :: ChatCompletionRequest

text \<open>
  One line of the output document of a batch, as the loop of retrieveBatch reads it:
  \<open>line_custom_id\<close> is the value found under \<open>custom_id\<close> (\<open>undefined\<close> when the line has
  none), \<open>line_error\<close> is the message of \<open>error\<close> when \<open>error\<close> is truthy, and
  \<open>line_response\<close> is \<open>response.body\<close> when \<open>response\<close> is truthy.
\<close>

record BatchChatCompletionResponse =
  line_custom_id :: jsvalue
  line_response :: "ChatCompletionResponse option"
  line_error :: "string option"

record Gemini_content =
  gemini_role :: string
  parts :: "string list"

record GeminiPromptRequest =
  contents :: "Gemini_content list"
  gen_temperature :: "real option"
  gen_topK :: "real option"
  gen_topP :: "real option"
  maxOutputTokens :: "real option"
  response_mime_type :: "string option"
  response_schema :: "jsvalue option"

record Gemini_candidate =
  candidate_parts :: "string list"

record GeminiPromptResponse =
  candidates :: "Gemini_candidate list"
  promptTokenCount :: nat
  candidatesTokenCount :: nat
  totalTokenCount :: nat

record BatchOptions =
  input_file_id :: string
  endpoint :: string
  completion_window :: string

text \<open>
  A request handed to the injected \<open>fetchFn\<close>. The body is kept as the value the code
  passes to \<open>JSON.stringify\<close> (or the form it builds for the upload).
\<close>

datatype request_body =
    NoBody
  | ChatBody ChatCompletionRequest
  | GeminiBody GeminiPromptRequest
  | BatchBody BatchOptions
  | FormBody string string string

record http_request =
  url :: string
  http_method :: string
  headers :: "(string \<times> string) list"
  body :: request_body

text \<open>
  A response of \<open>fetchFn\<close>. A cast of the source checks nothing at run time, so the JSON
  body is carried as what the code reads through each interface it casts to
  (\<open>await response.json() as X\<close>); \<open>error_json\<close> is \<open>JSON.stringify\<close> of the body and
  \<open>body_text\<close> is \<open>await response.text()\<close>, in code units.
\<close>

record http_response =
  ok :: bool
  error_json :: string
  body_text :: "code_unit list"
  as_ChatCompletionResponse :: ChatCompletionResponse
  as_FileUploadResponse :: FileUploadResponse
  as_BatchResponse :: BatchStatusResponse
  as_GeminiPromptResponse :: GeminiPromptResponse

text \<open>
  What the code calls and does not define. \<open>fetchFn\<close> is the injected transport; it sees
  the requests made so far, so a backend may answer a repeated request differently.
  \<open>JSON_parse\<close> is \<open>JSON.parse\<close> read as untyped data and \<open>JSON_parse_line\<close> is
  \<open>JSON.parse\<close> read through \<open>BatchChatCompletionResponse\<close>; both return \<open>Inl\<close> of the
  SyntaxError's text where the builtin throws. \<open>JSON_stringify_request\<close> and
  \<open>JSON_stringify_pretty\<close> are \<open>JSON.stringify\<close> on a batch line and on a value with
  indentation 2. \<open>Date_now i\<close> is the clock as read in iteration \<open>i\<close> of createBatch.
\<close>

record platform =
  fetchFn :: "http_request list \<Rightarrow> http_request \<Rightarrow> http_response"
  JSON_parse :: "string \<Rightarrow> string + jsvalue"
  JSON_parse_line :: "code_unit list \<Rightarrow> string + BatchChatCompletionResponse"
  JSON_stringify_request :: "OpenAI_BatchRequest \<Rightarrow> string"
  JSON_stringify_pretty :: "jsvalue \<Rightarrow> string"
  Date_now :: "nat \<Rightarrow> nat"

text \<open>A provider instance: the fields its constructor stores beside \<open>fetchFn\<close>.\<close>

record provider_instance =
  apiKey :: string
  baseUrl :: string

text \<open>One call of \<open>fetchFn\<close>: the response, and the log with the request added.\<close>

definition do_fetch ::
  "platform \<Rightarrow> http_request list \<Rightarrow> http_request \<Rightarrow> http_response \<times> http_request list" where
  "do_fetch P calls request = (fetchFn P calls request, calls @ [request])"

definition authorization :: "string \<Rightarrow> string" where
  "authorization key = (if prefix ''Bearer '' key then [] else ''Bearer '') @ key"

section \<open>What both providers share\<close>

text \<open>
  \<open>needsStructuredOutput\<close> is \<open>options.sampleObj && typeof options.sampleObj !== 'string'\<close>.
  The source uses the value in boolean positions only, so the model keeps its truthiness.
\<close>

definition needsStructuredOutput :: "jsvalue \<Rightarrow> bool" where
  "needsStructuredOutput sample = (truthy sample \<and> js_typeof sample \<noteq> ''string'')"

text \<open>\<open>parseJsonResponse\<close> (identical in both providers): \<open>JSON.parse\<close>, its error rethrown.\<close>

definition parseJsonResponse :: "platform \<Rightarrow> string \<Rightarrow> error + jsvalue" where
  "parseJsonResponse P txt =
     (case JSON_parse P txt of
        Inl err \<Rightarrow> Inl (Error (''Failed to parse JSON response: '' @ err))
      | Inr v \<Rightarrow> Inr v)"

text \<open>
  The replacer that \<open>enhancePromptWithStructure\<close> passes to \<open>JSON.stringify\<close>: a
  non-empty array becomes a one-element array holding \<open>{}\<close> or \<open>'example'\<close>. The
  serializer calls it on the value and then on every property of what it returned.
\<close>

fun apply_replacer :: "jsvalue \<Rightarrow> jsvalue" where
  "apply_replacer (JArr []) = JArr []"
| "apply_replacer (JArr (x # xs)) =
     JArr [if js_typeof x = ''object'' then JObj [] else JStr ''example'']"
| "apply_replacer (JObj kvs) = JObj (map (\<lambda>(key, v). (key, apply_replacer v)) kvs)"
| "apply_replacer v = v"

definition structure_text :: "platform \<Rightarrow> jsvalue \<Rightarrow> string" where
  "structure_text P sample =
     (if js_typeof sample = ''object'' then JSON_stringify_pretty P (apply_replacer sample)
      else js_typeof sample)"

text \<open>\<open>Array.prototype.findLastIndex\<close>; \<open>None\<close> is the source's \<open>-1\<close>.\<close>

fun findLastIndex :: "('a \<Rightarrow> bool) \<Rightarrow> 'a list \<Rightarrow> nat option" where
  "findLastIndex p [] = None"
| "findLastIndex p (x # xs) =
     (case findLastIndex p xs of
        Some i \<Rightarrow> Some (Suc i)
      | None \<Rightarrow> if p x then Some 0 else None)"

definition structure_request :: string where
  "structure_request = ''Please provide the response in the following JSON structure: ''"

text \<open>
  \<open>enhancePromptWithStructure\<close> (identical in both providers), on the contents of the
  message list. The section on the store below gives the same function on references.
\<close>

definition enhancePromptWithStructure ::
  "platform \<Rightarrow> PromptMessage list \<Rightarrow> jsvalue \<Rightarrow> PromptMessage list" where
  "enhancePromptWithStructure P msgs sample =
     (let enhancedMessages = msgs;
          structure = structure_text P sample
      in case findLastIndex (\<lambda>m. role m = User) enhancedMessages of
           Some lastUserMessageIndex \<Rightarrow>
             enhancedMessages[lastUserMessageIndex :=
               (enhancedMessages ! lastUserMessageIndex)
                 \<lparr>content := content (enhancedMessages ! lastUserMessageIndex)
                              @ [CHR 0x0A, CHR 0x0A] @ structure_request @ structure\<rparr>]
         | None \<Rightarrow>
             enhancedMessages @ [\<lparr>role = User, content = structure_request @ structure\<rparr>])"

definition mentions_json :: "PromptMessage list \<Rightarrow> bool" where
  "mentions_json msgs = list_ex (\<lambda>m. js_includes (toLowerCase (content m)) ''json'') msgs"

definition json_required :: string where
  "json_required =
     ''A message for a structured output must contain '' @ [CHR 0x22] @ ''json'' @ [CHR 0x22]"

definition providerParam :: "(string \<times> jsvalue) list option \<Rightarrow> string \<Rightarrow> jsvalue" where
  "providerParam params key =
     (case params of
        None \<Rightarrow> JUndefined
      | Some kvs \<Rightarrow> (case map_of kvs key of None \<Rightarrow> JUndefined | Some v \<Rightarrow> v))"

definition or_default :: "real option \<Rightarrow> real \<Rightarrow> real option" where
  "or_default x d = (case x of None \<Rightarrow> Some d | Some y \<Rightarrow> Some y)"

section \<open>OpenAIProvider (providers/openai.ts)\<close>

definition OpenAI_getModels :: "ModelInfo list" where
  "OpenAI_getModels =
     [\<lparr>info_id = ''gpt-4o-mini'', info_name = GPT4oMini, info_provider = OpenAI,
       capabilities = \<lparr>structuredOutput = True, batchRequests = True\<rparr>\<rparr>]"

definition OpenAI_formatMessages :: "PromptMessage list \<Rightarrow> OpenAI_message list" where
  "OpenAI_formatMessages msgs =
     map (\<lambda>msg. \<lparr>wire_role = role_name (role msg), wire_content = content msg\<rparr>) msgs"

definition OpenAI_model_type :: "ModelName \<Rightarrow> string" where
  "OpenAI_model_type model = provider_name OpenAI @ ''/'' @ model"

text \<open>
  The request \<open>prompt\<close> sends (lines 242 to 275): the body, the agent name as \<open>user\<close>,
  and JSON mode or the enhanced prompt when structured output is needed.
\<close>

definition OpenAI_prompt_request ::
  "platform \<Rightarrow> provider_instance \<Rightarrow> ModelInfo \<Rightarrow> PromptMessage list \<Rightarrow> LLMRequestOptions
     \<Rightarrow> http_request" where
  "OpenAI_prompt_request P this modelInfo msgs options =
     (let needs = needsStructuredOutput (sampleObj options);
          requestBody =
            \<lparr>chat_model = info_id modelInfo,
             chat_messages = OpenAI_formatMessages msgs,
             chat_temperature = or_default (temperature options) 0.7,
             max_tokens = maxTokens options,
             top_p = topP options,
             frequency_penalty = frequencyPenalty options,
             presence_penalty = presencePenalty options,
             response_format = None,
             chat_user = None,
             chat_seed = (case seed options of
                            Some s \<Rightarrow> JNum s
                          | None \<Rightarrow> providerParam (providerParams options) ''seed'')\<rparr>;
          requestBody =
            (if truthy_str (agentName options) \<or> truthy_str (user options)
             then requestBody\<lparr>chat_user := or_str (user options) (agentName options)\<rparr>
             else requestBody);
          requestBody =
            (if needs \<and> structuredOutput (capabilities modelInfo)
             then requestBody\<lparr>response_format := Some ''json_object''\<rparr>
             else if needs \<and> \<not> structuredOutput (capabilities modelInfo)
             then requestBody\<lparr>chat_messages :=
                    OpenAI_formatMessages
                      (enhancePromptWithStructure P msgs (sampleObj options))\<rparr>
             else requestBody)
      in \<lparr>url = baseUrl this @ ''/chat/completions'',
          http_method = ''POST'',
          headers = [(''Content-Type'', ''application/json''),
                     (''Authorization'', authorization (apiKey this))],
          body = ChatBody requestBody\<rparr>)"

definition OpenAI_prompt ::
  "platform \<Rightarrow> provider_instance \<Rightarrow> PromptMessage list \<Rightarrow> ModelName \<Rightarrow> LLMRequestOptions
     \<Rightarrow> http_request list \<Rightarrow> (error + CompletionResponse) \<times> http_request list" where
  "OpenAI_prompt P this msgs model options calls =
     (case find (\<lambda>m. info_name m = model) OpenAI_getModels of
        None \<Rightarrow> (Inl (Error (''Model not found: '' @ model)), calls)
      | Some modelInfo \<Rightarrow>
          let needs = needsStructuredOutput (sampleObj options) in
          if needs \<and> \<not> mentions_json msgs then (Inl (Error json_required), calls)
          else
            let (response, calls') =
                  do_fetch P calls (OpenAI_prompt_request P this modelInfo msgs options)
            in if \<not> ok response
               then (Inl (Error (''OpenAI API error: '' @ error_json response)), calls')
               else
                 let responseData = as_ChatCompletionResponse response in
                 (case choices responseData of
                   [] \<Rightarrow> (Inl TypeError, calls')
                 | choice # _ \<Rightarrow>
                     let txt = wire_content choice;
                         parsed =
                           (if needs
                            then (case parseJsonResponse P txt of
                                    Inl err \<Rightarrow> JStr txt
                                  | Inr v \<Rightarrow> v)
                            else JStr txt)
                     in (Inr \<lparr>completion_text = txt,
                              data = parsed,
                              usage =
                                \<lparr>promptTokens = prompt_tokens (chat_usage responseData),
                                 completionTokens = completion_tokens (chat_usage responseData),
                                 totalTokens = total_tokens (chat_usage responseData)\<rparr>,
                              completion_model = OpenAI_model_type model,
                              completion_provider = OpenAI\<rparr>,
                         calls')))"

text \<open>
  \<open>uploadFile\<close>: the JSONL document goes up as a multipart form. Here and below, the
  request an operation hands to \<open>fetchFn\<close> is named by a definition of its own.
\<close>

definition OpenAI_upload_request :: "provider_instance \<Rightarrow> string \<Rightarrow> http_request" where
  "OpenAI_upload_request this jsonl =
     \<lparr>url = baseUrl this @ ''/files'',
      http_method = ''POST'',
      headers = [(''Authorization'', authorization (apiKey this))],
      body = FormBody ''batch'' jsonl ''batch.jsonl''\<rparr>"

definition OpenAI_uploadFile ::
  "platform \<Rightarrow> provider_instance \<Rightarrow> string \<Rightarrow> http_request list
     \<Rightarrow> (error + string) \<times> http_request list" where
  "OpenAI_uploadFile P this jsonl calls =
     (let (response, calls') = do_fetch P calls (OpenAI_upload_request this jsonl)
      in if \<not> ok response
         then (Inl (Error (''Failed to upload file: '' @ error_json response)), calls')
         else (Inr (file_id (as_FileUploadResponse response)), calls'))"

text \<open>
  The correlation id of item \<open>i\<close> (lines 336 to 343): the timestamp and the index,
  prefixed by the batch name and then by the agent name when they are given, unless the
  item brings an id of its own that is not empty once stripped.
\<close>

definition requestId :: "platform \<Rightarrow> BatchRequestOptions \<Rightarrow> BatchRequest \<Rightarrow> nat \<Rightarrow> string" where
  "requestId P options prompt i =
     (let rid = string_of_nat (Date_now P i) @ ''_'' @ string_of_nat i;
          rid = (if truthy_str (batchName options)
                 then strip_non_alnum (the (batchName options)) @ ''_'' @ rid else rid);
          rid = (if truthy_str (agentName options)
                 then strip_non_alnum (the (agentName options)) @ ''_'' @ rid else rid)
      in if truthy_str (map_option strip_non_alnum (request_id prompt))
         then strip_non_alnum (the (request_id prompt)) else rid)"

definition chatRequest ::
  "platform \<Rightarrow> ModelInfo \<Rightarrow> BatchRequestOptions \<Rightarrow> PromptMessage list \<Rightarrow> ChatCompletionRequest" where
  "chatRequest P modelInfo options msgs =
     (let needs = needsStructuredOutput (sampleObj options);
          req =
            \<lparr>chat_model = info_id modelInfo,
             chat_messages = OpenAI_formatMessages msgs,
             chat_temperature = or_default (temperature options) 0.7,
             max_tokens = maxTokens options,
             top_p = topP options,
             frequency_penalty = frequencyPenalty options,
             presence_penalty = presencePenalty options,
             response_format = None,
             chat_user = None,
             chat_seed = JUndefined\<rparr>;
          req = (if truthy_str (user options) \<or> truthy_str (agentName options)
                 then req\<lparr>chat_user := or_str (user options) (agentName options)\<rparr> else req);
          req = (if truthy (providerParam (providerParams options) ''seed'')
                 then req\<lparr>chat_seed := providerParam (providerParams options) ''seed''\<rparr>
                 else req)
      in if needs \<and> structuredOutput (capabilities modelInfo)
         then req\<lparr>response_format := Some ''json_object''\<rparr>
         else if needs \<and> \<not> structuredOutput (capabilities modelInfo)
         then req\<lparr>chat_messages :=
                OpenAI_formatMessages (enhancePromptWithStructure P msgs (sampleObj options))\<rparr>
         else req)"

text \<open>
  The loop of createBatch (lines 333 to 398) from index \<open>i\<close> on: \<open>jsonl\<close> and
  \<open>requests\<close> (the source's \<open>batchRequests\<close>) are the two accumulators.
\<close>

fun createBatch_loop ::
  "platform \<Rightarrow> ModelInfo \<Rightarrow> BatchRequestOptions \<Rightarrow> nat \<Rightarrow> BatchRequest list \<Rightarrow> string
     \<Rightarrow> OpenAI_BatchRequest list \<Rightarrow> error + string \<times> OpenAI_BatchRequest list" where
  "createBatch_loop P modelInfo options i [] jsonl requests = Inr (jsonl, requests)"
| "createBatch_loop P modelInfo options i (prompt # rest) jsonl requests =
     (let rid = requestId P options prompt i;
          msgs = messages prompt
      in if msgs = [] then Inl (Error (''Prompt '' @ string_of_nat i @ '' is empty''))
         else if length msgs > 2048
         then Inl (Error (''Prompt '' @ string_of_nat i
                          @ '' exceeds the maximum number of messages (2048)''))
         else
           let batchRequest =
                 \<lparr>custom_id = rid, batch_method = ''POST'',
                  batch_url = ''/v1/chat/completions'',
                  batch_body = chatRequest P modelInfo options msgs\<rparr>;
               requests' = requests @ [batchRequest];
               jsonl' = jsonl @ JSON_stringify_request P batchRequest @ [CHR 0x0A]
           in if length jsonl' > 200000000
              then Inl (Error ''The total size of the batch requests exceeds 200MB'')
              else createBatch_loop P modelInfo options (Suc i) rest jsonl' requests')"

definition completion_window_of :: "real option \<Rightarrow> string" where
  "completion_window_of timeout =
     (if truthy_num timeout
      then string_of_nat (nat (min (max \<lceil>the timeout / 3600\<rceil> 1) 24)) @ ''h''
      else ''24h'')"

definition OpenAI_batches_request :: "provider_instance \<Rightarrow> BatchOptions \<Rightarrow> http_request" where
  "OpenAI_batches_request this batchOptions =
     \<lparr>url = baseUrl this @ ''/batches'',
      http_method = ''POST'',
      headers = [(''Content-Type'', ''application/json''),
                 (''Authorization'', authorization (apiKey this))],
      body = BatchBody batchOptions\<rparr>"

definition OpenAI_createBatch ::
  "platform \<Rightarrow> provider_instance \<Rightarrow> BatchRequest list \<Rightarrow> ModelName \<Rightarrow> BatchRequestOptions
     \<Rightarrow> http_request list \<Rightarrow> (error + CreateBatchResponse) \<times> http_request list" where
  "OpenAI_createBatch P this prompts model options calls =
     (case find (\<lambda>m. info_name m = model) OpenAI_getModels of
        None \<Rightarrow> (Inl (Error (''Model not found: '' @ model)), calls)
      | Some modelInfo \<Rightarrow>
          if \<not> batchRequests (capabilities modelInfo)
          then (Inl (Error (''Model '' @ model @ '' does not support batch requests'')), calls)
          else if length prompts > 50000
          then (Inl (Error ''Maximum number of requests in a batch is 50000''), calls)
          else if needsStructuredOutput (sampleObj options)
                  \<and> \<not> list_ex (\<lambda>m. mentions_json (messages m)) prompts
          then (Inl (Error json_required), calls)
          else
            (case createBatch_loop P modelInfo options 0 prompts [] [] of
               Inl err \<Rightarrow> (Inl err, calls)
             | Inr (jsonl, requests) \<Rightarrow>
                 (case OpenAI_uploadFile P this jsonl calls of
                    (Inl err, calls') \<Rightarrow> (Inl err, calls')
                  | (Inr fileId, calls') \<Rightarrow>
                      let batchOptions =
                            \<lparr>input_file_id = fileId,
                             endpoint = ''/v1/chat/completions'',
                             completion_window = completion_window_of (timeoutSeconds options)\<rparr>;
                          (response, calls'') =
                            do_fetch P calls' (OpenAI_batches_request this batchOptions)
                      in if \<not> ok response
                         then (Inl (Error (''Failed to create batch: '' @ error_json response)),
                               calls'')
                         else
                           let batchResponse = as_BatchResponse response
                           in (Inr \<lparr>requestIds = map custom_id requests,
                                    batchId = batch_id batchResponse\<rparr>,
                               calls''))))"

text \<open>
  The id the backend knows: what follows the first underscore of \<open>batchId\<close>, when it
  has one (\<open>batchId.includes('_') ? batchId.split('_').slice(1).join('_') : batchId\<close>).
\<close>

definition actualBatchId :: "string \<Rightarrow> string" where
  "actualBatchId bid =
     (if js_includes bid ''_'' then js_join ''_'' (drop 1 (js_split (CHR ''_'') bid)) else bid)"

definition mapOpenAIBatchStatus :: "string \<Rightarrow> string" where
  "mapOpenAIBatchStatus st =
     (if st = ''validating'' \<or> st = ''processing'' then ''processing''
      else if st = ''completed'' then ''completed''
      else if st = ''failed'' \<or> st = ''cancelled'' \<or> st = ''cancelling'' \<or> st = ''expired''
      then ''failed''
      else ''pending'')"

definition OpenAI_check_request :: "provider_instance \<Rightarrow> string \<Rightarrow> http_request" where
  "OpenAI_check_request this bid =
     \<lparr>url = baseUrl this @ ''/batches/'' @ actualBatchId bid,
      http_method = ''GET'',
      headers = [(''Authorization'', authorization (apiKey this))],
      body = NoBody\<rparr>"

definition OpenAI_checkBatch ::
  "platform \<Rightarrow> provider_instance \<Rightarrow> string \<Rightarrow> ModelName \<Rightarrow> http_request list
     \<Rightarrow> (error + BatchStatus) \<times> http_request list" where
  "OpenAI_checkBatch P this bid model calls =
     (let (response, calls') = do_fetch P calls (OpenAI_check_request this bid)
      in if \<not> ok response
         then (Inl (Error (''Failed to check batch status: '' @ error_json response)), calls')
         else
           let statusData = as_BatchResponse response
           in (Inr \<lparr>status_id = bid,
                    status = mapOpenAIBatchStatus (batch_status statusData),
                    outputFileId = output_file_id statusData,
                    status_error =
                      (if truthy_str (error_file_id statusData)
                       then Some (''Error file ID: '' @ the (error_file_id statusData))
                       else None)\<rparr>,
               calls'))"

text \<open>
  The loop of retrieveBatch over the lines of the output document (lines 511 to 558).
  A \<open>continue\<close> of the source is the recursive call with \<open>responses\<close> as it is. Reading
  \<open>choices[0].message\<close> throws a TypeError when there is no first choice. \<open>parsed\<close> is
  the \<open>try\<close> around \<open>parseJsonResponse\<close>, whose \<open>catch\<close> continues. The call
  \<open>response.custom_id.split('_')\<close> throws a TypeError unless \<open>custom_id\<close> is a string
  (of the values JSON has, only a string has a method \<open>split\<close>); \<open>requestIdParts\<close> and
  \<open>requestIndex\<close> are computed and used nowhere, and \<open>Number.parseInt\<close> does not throw.
\<close>

fun retrieveBatch_loop ::
  "platform \<Rightarrow> ModelName \<Rightarrow> jsvalue \<Rightarrow> code_unit list list \<Rightarrow> CompletionResponse list
     \<Rightarrow> error + CompletionResponse list" where
  "retrieveBatch_loop P model sample [] responses = Inr responses"
| "retrieveBatch_loop P model sample (rawResponse # rest) responses =
     (case JSON_parse_line P rawResponse of
        Inl err \<Rightarrow> retrieveBatch_loop P model sample rest responses
      | Inr response \<Rightarrow>
          if line_error response \<noteq> None \<or> line_response response = None
          then retrieveBatch_loop P model sample rest responses
          else
            (case choices (the (line_response response)) of
               [] \<Rightarrow> Inl TypeError
             | choice # _ \<Rightarrow>
                 let responseText = wire_content choice;
                     parsed =
                       (if truthy sample \<and> js_typeof sample = ''object''
                        then parseJsonResponse P responseText
                        else Inr (JStr responseText))
                 in (case parsed of
                       Inl err \<Rightarrow> retrieveBatch_loop P model sample rest responses
                     | Inr parsedData \<Rightarrow>
                         (case line_custom_id response of
                            JStr customId \<Rightarrow>
                              let requestIdParts = js_split (CHR ''_'') customId
                              in retrieveBatch_loop P model sample rest
                                   (responses @
                                    [\<lparr>completion_text = responseText,
                                      data = parsedData,
                                      usage =
                                        \<lparr>promptTokens =
                                           prompt_tokens
                                             (chat_usage (the (line_response response))),
                                         completionTokens =
                                           completion_tokens
                                             (chat_usage (the (line_response response))),
                                         totalTokens =
                                           total_tokens
                                             (chat_usage (the (line_response response)))\<rparr>,
                                      completion_model = OpenAI_model_type model,
                                      completion_provider = OpenAI\<rparr>])
                          | _ \<Rightarrow> Inl TypeError))))"

definition OpenAI_content_request :: "provider_instance \<Rightarrow> string \<Rightarrow> http_request" where
  "OpenAI_content_request this fileId =
     \<lparr>url = baseUrl this @ ''/files/'' @ fileId @ ''/content'',
      http_method = ''GET'',
      headers = [(''Authorization'', authorization (apiKey this))],
      body = NoBody\<rparr>"

definition OpenAI_retrieveBatch ::
  "platform \<Rightarrow> provider_instance \<Rightarrow> string \<Rightarrow> ModelName \<Rightarrow> jsvalue \<Rightarrow> http_request list
     \<Rightarrow> (error + CompletionResponse list) \<times> http_request list" where
  "OpenAI_retrieveBatch P this bid model sample calls =
     (case OpenAI_checkBatch P this bid model calls of
        (Inl err, calls') \<Rightarrow> (Inl err, calls')
      | (Inr st, calls') \<Rightarrow>
          if status st \<noteq> ''completed''
          then (Inl (Error (''Batch '' @ bid @ '' is not completed yet (status: ''
                            @ status st @ '')'')), calls')
          else if \<not> truthy_str (outputFileId st)
          then (Inl (Error ''No output file ID found for completed batch''), calls')
          else
            let (fileContentResponse, calls'') =
                  do_fetch P calls' (OpenAI_content_request this (the (outputFileId st)))
            in if \<not> ok fileContentResponse
               then (Inl (Error (''Failed to retrieve batch results: ''
                                 @ error_json fileContentResponse)), calls'')
               else
                 let jsonlContent = body_text fileContentResponse;
                     rawResponses = js_split 0x000A (js_trim jsonlContent)
                 in (retrieveBatch_loop P model sample rawResponses [], calls''))"

definition OpenAI_cancel_request :: "provider_instance \<Rightarrow> string \<Rightarrow> http_request" where
  "OpenAI_cancel_request this bid =
     \<lparr>url = baseUrl this @ ''/batches/'' @ actualBatchId bid @ ''/cancel'',
      http_method = ''POST'',
      headers = [(''Content-Type'', ''application/json''),
                 (''Authorization'', authorization (apiKey this))],
      body = NoBody\<rparr>"

definition OpenAI_cancelBatch ::
  "platform \<Rightarrow> provider_instance \<Rightarrow> string \<Rightarrow> ModelName \<Rightarrow> http_request list
     \<Rightarrow> (error + bool) \<times> http_request list" where
  "OpenAI_cancelBatch P this bid model calls =
     (let (response, calls') = do_fetch P calls (OpenAI_cancel_request this bid)
      in if \<not> ok response
         then (Inl (Error (''Failed to cancel batch: '' @ error_json response)), calls')
         else (Inr True, calls'))"

section \<open>GoogleProvider (providers/google.ts)\<close>

definition Google_getModels :: "ModelInfo list" where
  "Google_getModels =
     [\<lparr>info_id = ''gemini-2.0-flash'', info_name = Gemini2Flash, info_provider = Google,
       capabilities = \<lparr>structuredOutput = True, batchRequests = False\<rparr>\<rparr>,
      \<lparr>info_id = ''gemini-1.5-pro'', info_name = Gemini15, info_provider = Google,
       capabilities = \<lparr>structuredOutput = True, batchRequests = False\<rparr>\<rparr>]"

definition Google_formatMessages :: "PromptMessage list \<Rightarrow> Gemini_content list" where
  "Google_formatMessages msgs =
     map (\<lambda>msg. \<lparr>gemini_role = (if role msg = Assistant then ''model'' else ''user''),
                  parts = [content msg]\<rparr>) msgs"

text \<open>\<open>getGoogleSchemaType\<close>: the switch on the name \<open>typeof\<close> gave.\<close>

definition getGoogleSchemaType :: "string \<Rightarrow> string" where
  "getGoogleSchemaType jsType =
     (if jsType = ''string'' then ''STRING''
      else if jsType = ''number'' then ''NUMBER''
      else if jsType = ''boolean'' then ''BOOLEAN''
      else ''STRING'')"

text \<open>
  The assignment \<open>properties[key] = v\<close> of \<open>objectToGoogleSchema\<close>, on an object that
  started as the literal \<open>{}\<close>. It creates or overwrites an own property, but for the key
  \<open>__proto__\<close>: there it runs the setter that \<open>Object.prototype\<close> has under that name,
  which makes \<open>v\<close> (a schema: an object or \<open>null\<close>) the prototype of \<open>properties\<close> and
  creates no property. An object is modelled by its own properties, which are what
  \<open>JSON.stringify\<close> sends to the backend; so at that key they stay as they are.
\<close>

definition assign_property ::
  "string \<Rightarrow> jsvalue \<Rightarrow> (string \<times> jsvalue) list \<Rightarrow> (string \<times> jsvalue) list" where
  "assign_property key v properties =
     (if key = ''__proto__'' then properties else AList.update key v properties)"

text \<open>
  \<open>objectToGoogleSchema\<close>, the schema inferencer. Its branches in the order of the
  source: \<open>null\<close> and \<open>undefined\<close> give \<open>null\<close>; a value whose \<open>typeof\<close> is not
  \<open>'object'\<close> gives \<open>{type}\<close> (the last equation); an array gives an \<open>ARRAY\<close> schema from
  its first element; an object gives an \<open>OBJECT\<close> schema, its \<open>properties\<close> filled by one
  assignment \<open>properties[key] = ...\<close> per entry.
\<close>

fun objectToGoogleSchema :: "jsvalue \<Rightarrow> jsvalue" where
  "objectToGoogleSchema JNull = JNull"
| "objectToGoogleSchema JUndefined = JNull"
| "objectToGoogleSchema (JArr []) =
     JObj [(''type'', JStr ''ARRAY''), (''items'', JObj [(''type'', JStr ''STRING'')])]"
| "objectToGoogleSchema (JArr (x # xs)) =
     JObj [(''type'', JStr ''ARRAY''), (''items'', objectToGoogleSchema x)]"
| "objectToGoogleSchema (JObj kvs) =
     JObj [(''type'', JStr ''OBJECT''),
           (''properties'',
            JObj (fold (\<lambda>(key, v) properties.
                          assign_property key (objectToGoogleSchema v) properties) kvs []))]"
| "objectToGoogleSchema v = JObj [(''type'', JStr (getGoogleSchemaType (js_typeof v)))]"

definition Google_model_type :: "ModelName \<Rightarrow> string" where
  "Google_model_type model = provider_name Google @ ''/'' @ model"

text \<open>\<open>baseUrl.replace(/\/v1$/, '/v1beta')\<close>.\<close>

definition v1beta :: "string \<Rightarrow> string" where
  "v1beta u = (if suffix ''/v1'' u then take (length u - 3) u @ ''/v1beta'' else u)"

text \<open>
  The request \<open>prompt\<close> sends (lines 153 to 188): with structured output needed it goes
  to the \<open>v1beta\<close> endpoint with the JSON mime type, and with the schema of the example or
  the enhanced prompt.
\<close>

definition Google_prompt_request ::
  "platform \<Rightarrow> provider_instance \<Rightarrow> ModelInfo \<Rightarrow> PromptMessage list \<Rightarrow> LLMRequestOptions
     \<Rightarrow> http_request" where
  "Google_prompt_request P this modelInfo msgs options =
     (let needs = needsStructuredOutput (sampleObj options);
          requestBody =
            \<lparr>contents = Google_formatMessages msgs,
             gen_temperature = or_default (temperature options) 0.7,
             gen_topK = topK options,
             gen_topP = topP options,
             maxOutputTokens = maxTokens options,
             response_mime_type = None,
             response_schema = None\<rparr>;
          base = (if needs then v1beta (baseUrl this) else baseUrl this);
          requestBody =
            (if needs
             then (if structuredOutput (capabilities modelInfo)
                   then requestBody
                          \<lparr>response_mime_type := Some ''application/json'',
                           response_schema :=
                             Some (objectToGoogleSchema (sampleObj options))\<rparr>
                   else requestBody
                          \<lparr>response_mime_type := Some ''application/json'',
                           contents :=
                             Google_formatMessages
                               (enhancePromptWithStructure P msgs (sampleObj options))\<rparr>)
             else requestBody)
      in \<lparr>url = base @ ''/models/'' @ info_id modelInfo @ '':generateContent?key=''
                 @ apiKey this,
          http_method = ''POST'',
          headers = [(''Content-Type'', ''application/json'')],
          body = GeminiBody requestBody\<rparr>)"

definition Google_prompt ::
  "platform \<Rightarrow> provider_instance \<Rightarrow> PromptMessage list \<Rightarrow> ModelName \<Rightarrow> LLMRequestOptions
     \<Rightarrow> http_request list \<Rightarrow> (error + CompletionResponse) \<times> http_request list" where
  "Google_prompt P this msgs model options calls =
     (case find (\<lambda>m. info_name m = model) Google_getModels of
        None \<Rightarrow> (Inl (Error (''Model not found: '' @ model)), calls)
      | Some modelInfo \<Rightarrow>
          let needs = needsStructuredOutput (sampleObj options);
              (response, calls') =
                do_fetch P calls (Google_prompt_request P this modelInfo msgs options)
          in if \<not> ok response
             then (Inl (Error (''Google API error: '' @ error_json response)), calls')
             else
               let responseData = as_GeminiPromptResponse response in
               (case candidates responseData of
                 [] \<Rightarrow> (Inl TypeError, calls')
               | candidate # _ \<Rightarrow>
                   (case candidate_parts candidate of
                      [] \<Rightarrow> (Inl TypeError, calls')
                    | txt # _ \<Rightarrow>
                        let parsed =
                              (if needs
                               then (case parseJsonResponse P txt of
                                       Inl err \<Rightarrow> JStr txt
                                     | Inr v \<Rightarrow> v)
                               else JStr txt)
                        in (Inr \<lparr>completion_text = txt,
                                 data = parsed,
                                 usage =
                                   \<lparr>promptTokens = promptTokenCount responseData,
                                    completionTokens = candidatesTokenCount responseData,
                                    totalTokens = totalTokenCount responseData\<rparr>,
                                 completion_model = Google_model_type model,
                                 completion_provider = Google\<rparr>,
                            calls'))))"

text \<open>The four batch operations: the model is looked up, then the operation throws.\<close>

definition Google_createBatch ::
  "platform \<Rightarrow> provider_instance \<Rightarrow> PromptMessage list list \<Rightarrow> ModelName \<Rightarrow> BatchRequestOptions
     \<Rightarrow> http_request list \<Rightarrow> (error + string) \<times> http_request list" where
  "Google_createBatch P this prompts model options calls =
     (case find (\<lambda>m. info_name m = model) Google_getModels of
        None \<Rightarrow> (Inl (Error (''Model not found: '' @ model)), calls)
      | Some modelInfo \<Rightarrow>
          (Inl (Error (''Batch requests are not supported by the Google Gemini API for model ''
                       @ model)), calls))"

definition Google_checkBatch ::
  "platform \<Rightarrow> provider_instance \<Rightarrow> string \<Rightarrow> ModelName \<Rightarrow> http_request list
     \<Rightarrow> (error + BatchStatus) \<times> http_request list" where
  "Google_checkBatch P this bid model calls =
     (case find (\<lambda>m. info_name m = model) Google_getModels of
        None \<Rightarrow> (Inl (Error (''Model not found: '' @ model)), calls)
      | Some modelInfo \<Rightarrow>
          (Inl (Error (''Batch operations are not supported by the Google Gemini API for model ''
                       @ model)), calls))"

definition Google_retrieveBatch ::
  "platform \<Rightarrow> provider_instance \<Rightarrow> string \<Rightarrow> ModelName \<Rightarrow> jsvalue \<Rightarrow> http_request list
     \<Rightarrow> (error + CompletionResponse list) \<times> http_request list" where
  "Google_retrieveBatch P this bid model sample calls =
     (case find (\<lambda>m. info_name m = model) Google_getModels of
        None \<Rightarrow> (Inl (Error (''Model not found: '' @ model)), calls)
      | Some modelInfo \<Rightarrow>
          (Inl (Error (''Batch operations are not supported by the Google Gemini API for model ''
                       @ model)), calls))"

definition Google_cancelBatch ::
  "platform \<Rightarrow> provider_instance \<Rightarrow> string \<Rightarrow> ModelName \<Rightarrow> http_request list
     \<Rightarrow> (error + bool) \<times> http_request list" where
  "Google_cancelBatch P this bid model calls =
     (case find (\<lambda>m. info_name m = model) Google_getModels of
        None \<Rightarrow> (Inl (Error (''Model not found: '' @ model)), calls)
      | Some modelInfo \<Rightarrow>
          (Inl (Error (''Batch operations are not supported by the Google Gemini API for model ''
                       @ model)), calls))"

section \<open>The store\<close>

text \<open>
  Claims C5 and C6 are about what a call leaves of the arrays and objects it was given,
  so for them the code is modelled on a store. A reference is an index into the store;
  a cell is a message object, an array of messages (\<open>PromptMessage[]\<close>), a
  \<open>BatchRequest\<close> object (its \<open>id\<close> and a reference to its messages) or the array of
  prompts handed to \<open>createBatch\<close>. A new object or array takes the next free index.
\<close>

type_synonym ref = nat

datatype cell =
    MessageObj PromptMessage
  | MessageArr "ref list"
  | RequestObj "string option" ref
  | PromptsArr "ref list"

type_synonym store = "cell list"

definition cell_at :: "store \<Rightarrow> ref \<Rightarrow> cell option" where
  "cell_at h r = (if r < length h then Some (h ! r) else None)"

definition alloc :: "store \<Rightarrow> cell \<Rightarrow> store \<times> ref" where
  "alloc h c = (h @ [c], length h)"

text \<open>
  Reading the store: the message object at a reference, the elements of a message array,
  and the contents of a message array (\<open>None\<close> when a reference does not lead to the
  kind of cell the type promises, which no typed caller produces).
\<close>

definition message_at :: "store \<Rightarrow> ref \<Rightarrow> PromptMessage option" where
  "message_at h r = (case cell_at h r of Some (MessageObj m) \<Rightarrow> Some m | _ \<Rightarrow> None)"

definition elements :: "store \<Rightarrow> ref \<Rightarrow> ref list" where
  "elements h r = (case cell_at h r of Some (MessageArr rs) \<Rightarrow> rs | _ \<Rightarrow> [])"

definition read_messages :: "store \<Rightarrow> ref \<Rightarrow> PromptMessage list option" where
  "read_messages h r =
     (case cell_at h r of
        Some (MessageArr rs) \<Rightarrow> those (map (message_at h) rs)
      | _ \<Rightarrow> None)"

definition has_role :: "store \<Rightarrow> Role \<Rightarrow> ref \<Rightarrow> bool" where
  "has_role h x r = (case message_at h r of Some m \<Rightarrow> role m = x | None \<Rightarrow> False)"

text \<open>
  \<open>enhancePromptWithStructure\<close> on the store: the spread \<open>[...messages]\<close> makes a new
  array of the same references; the last user message is replaced, in the new array, by
  a new object (\<open>{...old, content}\<close>), or a new object is pushed onto the new array.
\<close>

definition enhancePromptWithStructure_store ::
  "platform \<Rightarrow> store \<Rightarrow> ref \<Rightarrow> jsvalue \<Rightarrow> store \<times> ref" where
  "enhancePromptWithStructure_store P h msgs sample =
     (let (h1, enhancedMessages) = alloc h (MessageArr (elements h msgs));
          structure = structure_text P sample
      in case findLastIndex (has_role h1 User) (elements h1 enhancedMessages) of
           Some lastUserMessageIndex \<Rightarrow>
             (case message_at h1 (elements h1 enhancedMessages ! lastUserMessageIndex) of
                Some old \<Rightarrow>
                  let (h2, m) =
                        alloc h1
                          (MessageObj
                             (old\<lparr>content := content old @ [CHR 0x0A, CHR 0x0A]
                                               @ structure_request @ structure\<rparr>))
                  in (h2[enhancedMessages :=
                           MessageArr ((elements h2 enhancedMessages)
                                         [lastUserMessageIndex := m])],
                      enhancedMessages)
              | None \<Rightarrow> (h1, enhancedMessages))
         | None \<Rightarrow>
             let (h2, m) =
                   alloc h1
                     (MessageObj \<lparr>role = User, content = structure_request @ structure\<rparr>)
             in (h2[enhancedMessages := MessageArr (elements h2 enhancedMessages @ [m])],
                 enhancedMessages))"

section \<open>LLMAgent (agents.ts)\<close>

text \<open>
  The fields of the agent that \<open>prompt\<close> and \<open>createBatch\<close> read. The provider instance
  is \<open>GoogleProvider\<close> or \<open>OpenAIProvider\<close>; its method is a parameter of the two
  operations below. A provider only reads the messages it is given (\<open>map\<close>, \<open>some\<close>, the
  spread copy above), so it is a function of their contents.
\<close>

record LLMAgent =
  agent_name :: string
  modelName :: ModelName
  agent_provider :: Provider
  basePrompt :: string
  agent_sampleObj :: jsvalue

text \<open>
  \<open>prependBasePrompt\<close>, on the contents and on the store: without a base prompt the
  argument itself is returned; with one, a new array holds a new developer message and
  the messages of the argument that are not developer messages.
\<close>

definition prependBasePrompt :: "LLMAgent \<Rightarrow> PromptMessage list \<Rightarrow> PromptMessage list" where
  "prependBasePrompt agent msgs =
     (if basePrompt agent = [] then msgs
      else \<lparr>role = Developer, content = basePrompt agent\<rparr>
             # filter (\<lambda>m. role m \<noteq> Developer) msgs)"

definition prependBasePrompt_store :: "LLMAgent \<Rightarrow> store \<Rightarrow> ref \<Rightarrow> store \<times> ref" where
  "prependBasePrompt_store agent h msgs =
     (if basePrompt agent = [] then (h, msgs)
      else
        let (h1, developer) =
              alloc h (MessageObj \<lparr>role = Developer, content = basePrompt agent\<rparr>);
            kept = filter (\<lambda>m. \<not> has_role h1 Developer m) (elements h1 msgs)
        in alloc h1 (MessageArr (developer # kept)))"

definition LLMAgent_prompt ::
  "(PromptMessage list \<Rightarrow> ModelName \<Rightarrow> LLMRequestOptions \<Rightarrow> http_request list
      \<Rightarrow> (error + 'a) \<times> http_request list)
   \<Rightarrow> LLMAgent \<Rightarrow> store \<Rightarrow> ref \<Rightarrow> LLMRequestOptions \<Rightarrow> http_request list
   \<Rightarrow> store \<times> (error + 'a) \<times> http_request list" where
  "LLMAgent_prompt provider_prompt agent h msgs options calls =
     (let (h', messagesWithBasePrompt) = prependBasePrompt_store agent h msgs;
          optionsWithAgent =
            options\<lparr>agentName := Some (agent_name agent), sampleObj := agent_sampleObj agent\<rparr>
      in (h',
          case read_messages h' messagesWithBasePrompt of
            None \<Rightarrow> (Inl TypeError, calls)
          | Some ms \<Rightarrow> provider_prompt ms (modelName agent) optionsWithAgent calls))"

text \<open>
  An item of the array given to \<open>createBatch\<close> is an array of messages or a
  \<open>BatchRequest\<close> object. \<open>isBatchRequest\<close>, the type guard of that union, is imported from
  a version of types.ts that is not among the sources; the model reads it off the kind
  of the cell.
\<close>

datatype batch_item = Plain "PromptMessage list" | Request BatchRequest

definition slots :: "store \<Rightarrow> ref \<Rightarrow> ref list" where
  "slots h r = (case cell_at h r of Some (PromptsArr rs) \<Rightarrow> rs | _ \<Rightarrow> [])"

definition read_item :: "store \<Rightarrow> ref \<Rightarrow> batch_item option" where
  "read_item h r =
     (case cell_at h r of
        Some (MessageArr rs) \<Rightarrow> map_option Plain (read_messages h r)
      | Some (RequestObj rid msgs) \<Rightarrow>
          map_option (\<lambda>ms. Request \<lparr>request_id = rid, messages = ms\<rparr>) (read_messages h msgs)
      | _ \<Rightarrow> None)"

definition read_items :: "store \<Rightarrow> ref \<Rightarrow> batch_item list option" where
  "read_items h r =
     (case cell_at h r of
        Some (PromptsArr rs) \<Rightarrow> those (map (read_item h) rs)
      | _ \<Rightarrow> None)"

text \<open>
  One round of the loop \<open>for (const idx in prompts)\<close> of \<open>createBatch\<close>: the slot
  \<open>prompts[idx]\<close> is assigned the prepended messages, or a copy of the request object
  that holds them.
\<close>

definition prepend_slot :: "LLMAgent \<Rightarrow> ref \<Rightarrow> nat \<Rightarrow> store \<Rightarrow> store" where
  "prepend_slot agent prompts idx h =
     (if idx < length (slots h prompts)
      then
        let prompt = slots h prompts ! idx in
        case cell_at h prompt of
          Some (RequestObj rid msgs) \<Rightarrow>
            let (h1, m) = prependBasePrompt_store agent h msgs;
                (h2, r) = alloc h1 (RequestObj rid m)
            in h2[prompts := PromptsArr ((slots h2 prompts)[idx := r])]
        | _ \<Rightarrow>
            let (h1, m) = prependBasePrompt_store agent h prompt
            in h1[prompts := PromptsArr ((slots h1 prompts)[idx := m])]
      else h)"

text \<open>
  \<open>createBatch\<close>: the loop, then the call of the provider, whose error a Google agent
  replaces by its own.
\<close>

definition unsupported :: "LLMAgent \<Rightarrow> string" where
  "unsupported agent =
     ''The agent \"'' @ agent_name agent @ ''\" uses Google's '' @ modelName agent
       @ '' which doesn't support batch operations''"

definition LLMAgent_createBatch ::
  "(batch_item list \<Rightarrow> ModelName \<Rightarrow> BatchRequestOptions \<Rightarrow> http_request list
      \<Rightarrow> (error + 'a) \<times> http_request list)
   \<Rightarrow> LLMAgent \<Rightarrow> store \<Rightarrow> ref \<Rightarrow> BatchRequestOptions \<Rightarrow> http_request list
   \<Rightarrow> store \<times> (error + 'a) \<times> http_request list" where
  "LLMAgent_createBatch provider_createBatch agent h prompts options calls =
     (let h' = fold (prepend_slot agent prompts) [0..<length (slots h prompts)] h;
          optionsWithAgent =
            options\<lparr>agentName := Some (agent_name agent), sampleObj := agent_sampleObj agent\<rparr>
      in (h',
          case read_items h' prompts of
            None \<Rightarrow> (Inl TypeError, calls)
          | Some items \<Rightarrow>
              (case provider_createBatch items (modelName agent) optionsWithAgent calls of
                 (Inl err, calls') \<Rightarrow>
                   if agent_provider agent = Google
                   then (Inl (Error (unsupported agent)), calls')
                   else (Inl err, calls')
               | (Inr r, calls') \<Rightarrow> (Inr r, calls'))))"

text \<open>
  The call as it reaches \<open>GoogleProvider.createBatch\<close>, which never reads its prompts.
\<close>

definition item_messages :: "batch_item \<Rightarrow> PromptMessage list" where
  "item_messages item = (case item of Plain ms \<Rightarrow> ms | Request r \<Rightarrow> messages r)"

definition Google_agent_createBatch ::
  "platform \<Rightarrow> provider_instance \<Rightarrow> batch_item list \<Rightarrow> ModelName \<Rightarrow> BatchRequestOptions
     \<Rightarrow> http_request list \<Rightarrow> (error + string) \<times> http_request list" where
  "Google_agent_createBatch P this items = Google_createBatch P this (map item_messages items)"

section \<open>The claims in their own words\<close>

text \<open>
  The rule of claim C2 in the spec's words: of the batch name, the caller's identifier
  and the item's id, the first that is not empty is the correlation id, and the timestamp
  with the index is the fallback. It is here to be compared with \<open>requestId\<close>.
\<close>

definition first_nonempty_source ::
  "string option \<Rightarrow> string option \<Rightarrow> string option \<Rightarrow> string \<Rightarrow> string" where
  "first_nonempty_source batch agent item fallback =
     (case filter (\<lambda>s. s \<noteq> []) (map strip_non_alnum (List.map_filter id [batch, agent, item])) of
        [] \<Rightarrow> fallback
      | s # _ \<Rightarrow> s)"




text \<open>
  What the agent makes of one item of a batch (claim C5), and two stores that agree
  wherever the first is defined, the cell \<open>p\<close> apart.
\<close>

definition prepend_item :: "LLMAgent \<Rightarrow> batch_item \<Rightarrow> batch_item" where
  "prepend_item agent item =
     (case item of
        Plain ms \<Rightarrow> Plain (prependBasePrompt agent ms)
      | Request r \<Rightarrow> Request (r\<lparr>messages := prependBasePrompt agent (messages r)\<rparr>))"

definition agree :: "ref \<Rightarrow> store \<Rightarrow> store \<Rightarrow> bool" where
  "agree p h h' \<longleftrightarrow> length h \<le> length h' \<and> (\<forall>r<length h. r \<noteq> p \<longrightarrow> h' ! r = h ! r)"

section \<open>A sample environment\<close>

text \<open>
  The examples below run the operations against a backend that answers every request
  with success: a completion whose text is \<open>txt\<close>, an uploaded file \<open>file-in\<close>, a
  completed batch \<open>batch_abc\<close> with output file \<open>file-out\<close>, and \<open>document\<close> as the
  content of that file. \<open>sample_parse\<close> and \<open>sample_parse_line\<close> are \<open>JSON.parse\<close> on
  the texts the examples use: \<open>42\<close> and \<open>{"capital":"Paris"}\<close> are JSON, \<open>Paris\<close> is
  not; the three sample lines are what a batch output document holds, and
  \<open>sample_document\<close> has them, a line that is not JSON, and a no-break space and a line
  feed at its end.
  \<open>sample_stringify\<close> is \<open>JSON.stringify\<close> with indentation 2 on the two values the
  examples print, \<open>{capital: ''}\<close> and \<open>{}\<close>; a batch line is abbreviated to its
  \<open>custom_id\<close>, and the clock stands still.
\<close>

definition sample_line_json :: string where
  "sample_line_json = ''{\"custom_id\":\"item0\",\"response\":{\"body\":{\"choices\":[{\"message\":{\"role\":\"assistant\",\"content\":\"42\"}}],\"usage\":{\"prompt_tokens\":12,\"completion_tokens\":3,\"total_tokens\":15}}},\"error\":null}''"

definition sample_line_text :: string where
  "sample_line_text = ''{\"custom_id\":\"item1\",\"response\":{\"body\":{\"choices\":[{\"message\":{\"role\":\"assistant\",\"content\":\"Paris\"}}],\"usage\":{\"prompt_tokens\":12,\"completion_tokens\":3,\"total_tokens\":15}}},\"error\":null}''"

definition sample_line_error :: string where
  "sample_line_error = ''{\"custom_id\":\"item2\",\"response\":null,\"error\":{\"message\":\"boom\",\"type\":\"server_error\"}}''"

definition sample_completion :: "string \<Rightarrow> ChatCompletionResponse" where
  "sample_completion txt =
     \<lparr>choices = [\<lparr>wire_role = ''assistant'', wire_content = txt\<rparr>],
      chat_usage = \<lparr>prompt_tokens = 12, completion_tokens = 3, total_tokens = 15\<rparr>\<rparr>"

definition capital_example :: jsvalue where
  "capital_example = JObj [(''capital'', JStr '''')]"

definition sample_stringify :: "jsvalue \<Rightarrow> string" where
  "sample_stringify v =
     (if v = capital_example
      then ''{'' @ [CHR 0x0A] @ ''  \"capital\": \"\"'' @ [CHR 0x0A] @ ''}''
      else ''{}'')"

definition sample_parse :: "string \<Rightarrow> string + jsvalue" where
  "sample_parse txt =
     (if txt = ''42'' then Inr (JNum 42)
      else if txt = ''{\"capital\":\"Paris\"}'' then Inr (JObj [(''capital'', JStr ''Paris'')])
      else Inl ''SyntaxError: Unexpected token'')"

definition sample_parse_line :: "code_unit list \<Rightarrow> string + BatchChatCompletionResponse" where
  "sample_parse_line raw =
     (if raw = code_units sample_line_json
      then Inr \<lparr>line_custom_id = JStr ''item0'',
                line_response = Some (sample_completion ''42''), line_error = None\<rparr>
      else if raw = code_units sample_line_text
      then Inr \<lparr>line_custom_id = JStr ''item1'',
                line_response = Some (sample_completion ''Paris''), line_error = None\<rparr>
      else if raw = code_units sample_line_error
      then Inr \<lparr>line_custom_id = JStr ''item2'', line_response = None,
                line_error = Some ''boom''\<rparr>
      else Inl ''SyntaxError: Unexpected token'')"

definition sample_response :: "string \<Rightarrow> string \<Rightarrow> http_response" where
  "sample_response txt document =
     \<lparr>ok = True,
      error_json = ''{}'',
      body_text = code_units document,
      as_ChatCompletionResponse = sample_completion txt,
      as_FileUploadResponse = \<lparr>file_id = ''file-in''\<rparr>,
      as_BatchResponse =
        \<lparr>batch_id = ''batch_abc'', batch_status = ''completed'',
         output_file_id = Some ''file-out'', error_file_id = None\<rparr>,
      as_GeminiPromptResponse =
        \<lparr>candidates = [\<lparr>candidate_parts = [txt]\<rparr>],
         promptTokenCount = 12, candidatesTokenCount = 3, totalTokenCount = 15\<rparr>\<rparr>"

definition sample_platform :: "string \<Rightarrow> string \<Rightarrow> platform" where
  "sample_platform txt document =
     \<lparr>fetchFn = (\<lambda>calls request. sample_response txt document),
      JSON_parse = sample_parse,
      JSON_parse_line = sample_parse_line,
      JSON_stringify_request = (\<lambda>r. ''{\"custom_id\":\"'' @ custom_id r @ ''\"}''),
      JSON_stringify_pretty = sample_stringify,
      Date_now = (\<lambda>i. 1700000000000)\<rparr>"

definition sample_provider :: provider_instance where
  "sample_provider = \<lparr>apiKey = ''sk-test'', baseUrl = ''https://api.example.com/v1''\<rparr>"

definition no_options :: LLMRequestOptions where
  "no_options =
     \<lparr>temperature = None, topK = None, topP = None, maxTokens = None,
      frequencyPenalty = None, presencePenalty = None, sampleObj = JUndefined,
      agentName = None, user = None, seed = None, providerParams = None\<rparr>"

definition no_batch_options :: BatchRequestOptions where
  "no_batch_options =
     \<lparr>temperature = None, topK = None, topP = None, maxTokens = None,
      frequencyPenalty = None, presencePenalty = None, sampleObj = JUndefined,
      agentName = None, user = None, seed = None, providerParams = None,
      batchName = None, timeoutSeconds = None\<rparr>"


definition moons_question :: "PromptMessage list" where
  "moons_question = [\<lparr>role = User, content = ''How many moons has Mars?''\<rparr>]"

definition json_item :: BatchRequest where
  "json_item =
     \<lparr>request_id = Some ''france'',
      messages = [\<lparr>role = User, content = ''What is the capital of France? Answer in JSON.''\<rparr>]\<rparr>"

definition plain_item :: BatchRequest where
  "plain_item =
     \<lparr>request_id = Some ''italy'',
      messages = [\<lparr>role = User, content = ''What is the capital of Italy?''\<rparr>]\<rparr>"

definition nightly_options :: BatchRequestOptions where
  "nightly_options =
     no_batch_options\<lparr>agentName := Some ''summarizer'', batchName := Some ''nightly''\<rparr>"

definition anonymous_item :: BatchRequest where
  "anonymous_item =
     \<lparr>request_id = None,
      messages = [\<lparr>role = User, content = ''What is the capital of Germany?''\<rparr>]\<rparr>"


definition sample_store :: store where
  "sample_store =
     [MessageObj \<lparr>role = Developer, content = ''You are terse.''\<rparr>,
      MessageObj \<lparr>role = User, content = ''Tell me about France''\<rparr>,
      MessageArr [0, 1]]"

definition sample_agent :: LLMAgent where
  "sample_agent =
     \<lparr>agent_name = ''TestGoogleBatchErrorAgent'', modelName = Gemini2Flash,
      agent_provider = Google, basePrompt = ''You are a helpful assistant.'',
      agent_sampleObj = JUndefined\<rparr>"

definition france_question :: PromptMessage where
  "france_question = \<lparr>role = User, content = ''What is the capital of France?''\<rparr>"

definition germany_question :: PromptMessage where
  "germany_question = \<lparr>role = User, content = ''What is the capital of Germany?''\<rparr>"

definition helpful :: PromptMessage where
  "helpful = \<lparr>role = Developer, content = ''You are a helpful assistant.''\<rparr>"

definition batch_store :: store where
  "batch_store =
     [MessageObj france_question, MessageArr [0],
      MessageObj germany_question, MessageArr [2],
      PromptsArr [1, 3]]"

text \<open>The parts of the sample platform.\<close>

lemma sample_platform_sel:
  "fetchFn (sample_platform txt document) calls request = sample_response txt document"
  "JSON_parse (sample_platform txt document) = sample_parse"
  "JSON_parse_line (sample_platform txt document) = sample_parse_line"
  "JSON_stringify_request (sample_platform txt document) r
     = ''{\"custom_id\":\"'' @ custom_id r @ ''\"}''"
  "JSON_stringify_pretty (sample_platform txt document) = sample_stringify"
  "Date_now (sample_platform txt document) i = 1700000000000"
  by (simp_all add: sample_platform_def)

section \<open>The schema inferencer\<close>

lemma update_fresh: "k \<notin> fst ` set al \<Longrightarrow> AList.update k v al = al @ [(k, v)]"
  by (induction al) auto

lemma fold_assign_distinct:
  "distinct (map fst kvs) \<Longrightarrow> fst ` set acc \<inter> fst ` set kvs = {} \<Longrightarrow>
   fold (\<lambda>(key, v) properties. assign_property key (f v) properties) kvs acc
     = acc @ map (\<lambda>(key, v). (key, f v)) (filter (\<lambda>(key, v). key \<noteq> ''__proto__'') kvs)"
proof (induction kvs arbitrary: acc)
  case Nil
  then show ?case by simp
next
  case (Cons kv kvs)
  obtain k v where kv: "kv = (k, v)" by (cases kv)
  have d: "distinct (map fst kvs)" using Cons.prems by simp
  show ?case
  proof (cases "k = ''__proto__''")
    case True
    have "fst ` set acc \<inter> fst ` set kvs = {}"
      using Cons.prems by (auto simp: kv)
    with d have "fold (\<lambda>(key, v) properties. assign_property key (f v) properties) kvs acc
       = acc @ map (\<lambda>(key, v). (key, f v)) (filter (\<lambda>(key, v). key \<noteq> ''__proto__'') kvs)"
      by (rule Cons.IH)
    then show ?thesis by (simp add: kv True assign_property_def)
  next
    case False
    from Cons.prems have fresh: "k \<notin> fst ` set acc" by (auto simp: kv)
    have step: "assign_property k (f v) acc = acc @ [(k, f v)]"
      using fresh False by (simp add: assign_property_def update_fresh)
    have "fst ` set (acc @ [(k, f v)]) \<inter> fst ` set kvs = {}"
      using Cons.prems by (auto simp: kv)
    with d have "fold (\<lambda>(key, v) properties. assign_property key (f v) properties) kvs
          (acc @ [(k, f v)])
       = (acc @ [(k, f v)])
          @ map (\<lambda>(key, v). (key, f v)) (filter (\<lambda>(key, v). key \<noteq> ''__proto__'') kvs)"
      by (rule Cons.IH)
    then show ?thesis by (simp add: kv step False)
  qed
qed

lemma objectToGoogleSchema_object:
  "distinct (map fst kvs) \<Longrightarrow>
   objectToGoogleSchema (JObj kvs) =
     JObj [(''type'', JStr ''OBJECT''),
           (''properties'',
            JObj (map (\<lambda>(key, w). (key, objectToGoogleSchema w))
                    (filter (\<lambda>(key, w). key \<noteq> ''__proto__'') kvs)))]"
  using fold_assign_distinct[of kvs "[]" objectToGoogleSchema] by simp

lemma getGoogleSchemaType_cases:
  "getGoogleSchemaType t = (if t = ''number'' then ''NUMBER'' else if t = ''boolean'' then ''BOOLEAN'' else ''STRING'')"
  by (simp add: getGoogleSchemaType_def)

text \<open>
  An own key \<open>__proto__\<close> of the example is lost: the schema of its value becomes the
  prototype of \<open>properties\<close> and no property of it.
\<close>

lemma objectToGoogleSchema_proto_key:
  "objectToGoogleSchema (JObj [(''name'', JStr ''''), (''__proto__'', JObj [(''age'', JNum 1)])])
     = JObj [(''type'', JStr ''OBJECT''),
             (''properties'', JObj [(''name'', JObj [(''type'', JStr ''STRING'')])])]"
  by (simp add: getGoogleSchemaType_def assign_property_def)

text \<open>
  Claim C7, as amended. \<open>objectToGoogleSchema\<close> is a total function and mirrors the
  example: \<open>null\<close> and \<open>undefined\<close> give \<open>null\<close>; every other value that is not an object
  gives \<open>{type}\<close> with the type \<open>getGoogleSchemaType\<close> maps its \<open>typeof\<close> to, and that map
  sends every name but \<open>string\<close>, \<open>number\<close> and \<open>boolean\<close> to \<open>STRING\<close>; an empty array
  gives an array of strings; a non-empty array gives an array schema whose items come
  from the first element alone; an object none of whose own keys is \<open>__proto__\<close> gives an
  object schema whose properties are the object's own keys, in order, each with the
  schema of its value.
\<close>

theorem objectToGoogleSchema_mirrors:
  "(v = JNull \<or> v = JUndefined \<longrightarrow> objectToGoogleSchema v = JNull)
   \<and> (js_typeof v \<noteq> ''object'' \<and> v \<noteq> JUndefined \<longrightarrow>
        objectToGoogleSchema v = JObj [(''type'', JStr (getGoogleSchemaType (js_typeof v)))])
   \<and> (t \<notin> {''string'', ''number'', ''boolean''} \<longrightarrow> getGoogleSchemaType t = ''STRING'')
   \<and> objectToGoogleSchema (JArr []) =
        JObj [(''type'', JStr ''ARRAY''), (''items'', JObj [(''type'', JStr ''STRING'')])]
   \<and> objectToGoogleSchema (JArr (x # xs)) =
        JObj [(''type'', JStr ''ARRAY''), (''items'', objectToGoogleSchema x)]
   \<and> (distinct (map fst kvs) \<and> ''__proto__'' \<notin> fst ` set kvs \<longrightarrow>
        objectToGoogleSchema (JObj kvs) =
          JObj [(''type'', JStr ''OBJECT''),
                (''properties'', JObj (map (\<lambda>(key, w). (key, objectToGoogleSchema w)) kvs))])"
proof -
  have a: "v = JNull \<or> v = JUndefined \<longrightarrow> objectToGoogleSchema v = JNull" by auto
  have b: "js_typeof v \<noteq> ''object'' \<and> v \<noteq> JUndefined \<longrightarrow>
        objectToGoogleSchema v = JObj [(''type'', JStr (getGoogleSchemaType (js_typeof v)))]"
    by (cases v) simp_all
  have c: "t \<notin> {''string'', ''number'', ''boolean''} \<longrightarrow> getGoogleSchemaType t = ''STRING''"
    by (simp add: getGoogleSchemaType_def)
  have d: "distinct (map fst kvs) \<and> ''__proto__'' \<notin> fst ` set kvs \<longrightarrow>
        objectToGoogleSchema (JObj kvs) =
          JObj [(''type'', JStr ''OBJECT''),
                (''properties'', JObj (map (\<lambda>(key, w). (key, objectToGoogleSchema w)) kvs))]"
  proof
    assume k: "distinct (map fst kvs) \<and> ''__proto__'' \<notin> fst ` set kvs"
    then have f: "filter (\<lambda>(key, w). key \<noteq> ''__proto__'') kvs = kvs"
      by (force simp: filter_id_conv)
    from k have "distinct (map fst kvs)" by simp
    then show "objectToGoogleSchema (JObj kvs) =
          JObj [(''type'', JStr ''OBJECT''),
                (''properties'', JObj (map (\<lambda>(key, w). (key, objectToGoogleSchema w)) kvs))]"
      by (simp only: objectToGoogleSchema_object f)
  qed
  show ?thesis using a b c d by simp
qed

text \<open>
  Claim C7 as stated fails at \<open>undefined\<close>: its \<open>typeof\<close> is a name the switch does not
  know, so the claim gives it the string type, and the guard at the head of the function
  returns \<open>null\<close> first. An example object with an \<open>undefined\<close> property reaches it.
\<close>

theorem objectToGoogleSchema_undefined_counterexample:
  "objectToGoogleSchema JUndefined
     \<noteq> JObj [(''type'', JStr (getGoogleSchemaType (js_typeof JUndefined)))]
   \<and> objectToGoogleSchema (JObj [(''name'', JStr ''''), (''nickname'', JUndefined)])
     = JObj [(''type'', JStr ''OBJECT''),
             (''properties'', JObj [(''name'', JObj [(''type'', JStr ''STRING'')]),
                                    (''nickname'', JNull)])]"
  by (simp add: getGoogleSchemaType_def assign_property_def)

theorem objectToGoogleSchema_mirrors_witness:
  "objectToGoogleSchema JNull = JNull
   \<and> objectToGoogleSchema (JNum 3) = JObj [(''type'', JStr ''NUMBER'')]
   \<and> getGoogleSchemaType ''bigint'' = ''STRING''
   \<and> objectToGoogleSchema (JArr [JBool True, JNum 1]) =
        JObj [(''type'', JStr ''ARRAY''), (''items'', JObj [(''type'', JStr ''BOOLEAN'')])]
   \<and> objectToGoogleSchema (JObj [(''name'', JStr ''''), (''tags'', JArr [])]) =
        JObj [(''type'', JStr ''OBJECT''),
              (''properties'',
               JObj [(''name'', JObj [(''type'', JStr ''STRING'')]),
                     (''tags'', JObj [(''type'', JStr ''ARRAY''),
                                      (''items'', JObj [(''type'', JStr ''STRING'')])])])]"
  using objectToGoogleSchema_mirrors [of JNull "''bigint''" "JBool True" "[JNum 1]"
          "[(''name'', JStr ''''), (''tags'', JArr [])]"]
        objectToGoogleSchema_mirrors [of "JNum 3" "''bigint''" "JBool True" "[JNum 1]"
          "[(''name'', JStr ''''), (''tags'', JArr [])]"]
  by (simp add: getGoogleSchemaType_def assign_property_def)

section \<open>The provider without batches\<close>

lemma js_includes_self: "js_includes t t"
  by (cases t) simp_all

lemma js_includes_append: "js_includes (xs @ t) t"
  by (induction xs) (simp_all add: js_includes_self)

lemma find_Google_model:
  "model \<in> set (map info_name Google_getModels) \<Longrightarrow>
   \<exists>modelInfo. find (\<lambda>m. info_name m = model) Google_getModels = Some modelInfo"
  by (auto simp: Google_getModels_def)

text \<open>
  Claim C8. For a model of \<open>Google_getModels\<close>, each of the four batch operations of
  GoogleProvider returns an error whose message contains the model name, and the log of
  \<open>fetchFn\<close> calls comes back as it went in: no request is made.
\<close>

theorem Google_batch_operations_unsupported:
  assumes "model \<in> set (map info_name Google_getModels)"
  shows "(\<exists>msg. Google_createBatch P this prompts model batch_options calls = (Inl (Error msg), calls)
              \<and> js_includes msg model)
       \<and> (\<exists>msg. Google_checkBatch P this bid model calls = (Inl (Error msg), calls)
              \<and> js_includes msg model)
       \<and> (\<exists>msg. Google_retrieveBatch P this bid model sample calls = (Inl (Error msg), calls)
              \<and> js_includes msg model)
       \<and> (\<exists>msg. Google_cancelBatch P this bid model calls = (Inl (Error msg), calls)
              \<and> js_includes msg model)"
proof -
  from find_Google_model[OF assms] obtain modelInfo
    where f: "find (\<lambda>m. info_name m = model) Google_getModels = Some modelInfo" ..
  have c: "Google_createBatch P this prompts model batch_options calls =
      (Inl (Error (''Batch requests are not supported by the Google Gemini API for model ''
                   @ model)), calls)"
    by (simp add: Google_createBatch_def f)
  have k: "Google_checkBatch P this bid model calls =
      (Inl (Error (''Batch operations are not supported by the Google Gemini API for model ''
                   @ model)), calls)"
    by (simp add: Google_checkBatch_def f)
  have r: "Google_retrieveBatch P this bid model sample calls =
      (Inl (Error (''Batch operations are not supported by the Google Gemini API for model ''
                   @ model)), calls)"
    by (simp add: Google_retrieveBatch_def f)
  have x: "Google_cancelBatch P this bid model calls =
      (Inl (Error (''Batch operations are not supported by the Google Gemini API for model ''
                   @ model)), calls)"
    by (simp add: Google_cancelBatch_def f)
  show ?thesis
    unfolding c k r x using js_includes_append by blast
qed

theorem Google_batch_operations_unsupported_witness:
  "Gemini2Flash \<in> set (map info_name Google_getModels)
   \<and> (\<exists>msg. Google_createBatch (sample_platform ''Paris'' []) sample_provider
               [[\<lparr>role = User, content = ''What is the capital of France?''\<rparr>]]
               Gemini2Flash no_batch_options [] = (Inl (Error msg), [])
            \<and> js_includes msg Gemini2Flash)
   \<and> (\<exists>msg. Google_checkBatch (sample_platform ''Paris'' []) sample_provider ''batch_abc''
               Gemini2Flash [] = (Inl (Error msg), [])
            \<and> js_includes msg Gemini2Flash)
   \<and> (\<exists>msg. Google_retrieveBatch (sample_platform ''Paris'' []) sample_provider ''batch_abc''
               Gemini2Flash JUndefined [] = (Inl (Error msg), [])
            \<and> js_includes msg Gemini2Flash)
   \<and> (\<exists>msg. Google_cancelBatch (sample_platform ''Paris'' []) sample_provider ''batch_abc''
               Gemini2Flash [] = (Inl (Error msg), [])
            \<and> js_includes msg Gemini2Flash)"
proof -
  have h: "Gemini2Flash \<in> set (map info_name Google_getModels)"
    by (simp add: Google_getModels_def)
  show ?thesis
    using h Google_batch_operations_unsupported [OF h] by simp
qed

section \<open>The single-completion path\<close>

lemma OpenAI_prompt_data:
  assumes "OpenAI_prompt P this msgs model options calls = (Inr r, calls')"
  shows "data r =
     (if needsStructuredOutput (sampleObj options)
      then (case JSON_parse P (completion_text r) of
              Inr v \<Rightarrow> v | Inl err \<Rightarrow> JStr (completion_text r))
      else JStr (completion_text r))"
  using assms
  by (auto simp: OpenAI_prompt_def Let_def do_fetch_def parseJsonResponse_def
      split: option.splits if_splits list.splits sum.splits prod.splits)

lemma Google_prompt_data:
  assumes "Google_prompt P this msgs model options calls = (Inr r, calls')"
  shows "data r =
     (if needsStructuredOutput (sampleObj options)
      then (case JSON_parse P (completion_text r) of
              Inr v \<Rightarrow> v | Inl err \<Rightarrow> JStr (completion_text r))
      else JStr (completion_text r))"
  using assms
  by (auto simp: Google_prompt_def Let_def do_fetch_def parseJsonResponse_def
      split: option.splits if_splits list.splits sum.splits prod.splits)







section \<open>When structured output is requested\<close>

lemma needsStructuredOutput_cases:
  "needsStructuredOutput sample =
     (case sample of
        JBool b \<Rightarrow> b
      | JNum x \<Rightarrow> x \<noteq> 0
      | JArr xs \<Rightarrow> True
      | JObj kvs \<Rightarrow> True
      | _ \<Rightarrow> False)"
  by (cases sample) (simp_all add: needsStructuredOutput_def)

lemma OpenAI_prompt_request_body:
  "\<exists>b. body (OpenAI_prompt_request P this modelInfo msgs options) = ChatBody b
      \<and> response_format b =
          (if needsStructuredOutput (sampleObj options) \<and> structuredOutput (capabilities modelInfo)
           then Some ''json_object'' else None)
      \<and> chat_messages b =
          OpenAI_formatMessages
            (if needsStructuredOutput (sampleObj options)
                \<and> \<not> structuredOutput (capabilities modelInfo)
             then enhancePromptWithStructure P msgs (sampleObj options) else msgs)"
  by (simp add: OpenAI_prompt_request_def Let_def)

lemma Google_prompt_request_body:
  "\<exists>g. body (Google_prompt_request P this modelInfo msgs options) = GeminiBody g
      \<and> response_mime_type g =
          (if needsStructuredOutput (sampleObj options) then Some ''application/json'' else None)
      \<and> response_schema g =
          (if needsStructuredOutput (sampleObj options) \<and> structuredOutput (capabilities modelInfo)
           then Some (objectToGoogleSchema (sampleObj options)) else None)
      \<and> contents g =
          Google_formatMessages
            (if needsStructuredOutput (sampleObj options)
                \<and> \<not> structuredOutput (capabilities modelInfo)
             then enhancePromptWithStructure P msgs (sampleObj options) else msgs)"
  by (simp add: Google_prompt_request_def Let_def)

text \<open>
  What \<open>needsStructuredOutput\<close> decides. On both providers it holds exactly when the
  example is truthy and not a string: for \<open>true\<close>, a number other than \<open>0\<close> and \<open>NaN\<close>, an
  array or an object (empty ones too), and not for an absent example, \<open>null\<close>, \<open>false\<close>,
  \<open>0\<close>, \<open>NaN\<close> or a string. Exactly then the request asks for JSON (JSON mode or the
  enhanced prompt on OpenAI, the JSON mime type with the schema or the enhanced prompt on
  Google), and exactly then the text of the completion is decoded. Whether it holds does
  not depend on the capabilities of the model.
\<close>

lemma structured_output_trigger:
  "needsStructuredOutput (sampleObj options) =
     (truthy (sampleObj options) \<and> js_typeof (sampleObj options) \<noteq> ''string'')
   \<and> needsStructuredOutput (sampleObj options) =
       (case sampleObj options of
          JBool b \<Rightarrow> b
        | JNum x \<Rightarrow> x \<noteq> 0
        | JArr xs \<Rightarrow> True
        | JObj kvs \<Rightarrow> True
        | _ \<Rightarrow> False)
   \<and> (\<exists>b. body (OpenAI_prompt_request P this modelInfo msgs options) = ChatBody b
        \<and> response_format b =
            (if needsStructuredOutput (sampleObj options)
                \<and> structuredOutput (capabilities modelInfo)
             then Some ''json_object'' else None)
        \<and> chat_messages b =
            OpenAI_formatMessages
              (if needsStructuredOutput (sampleObj options)
                  \<and> \<not> structuredOutput (capabilities modelInfo)
               then enhancePromptWithStructure P msgs (sampleObj options) else msgs))
   \<and> (\<exists>g. body (Google_prompt_request P this modelInfo msgs options) = GeminiBody g
        \<and> response_mime_type g =
            (if needsStructuredOutput (sampleObj options)
             then Some ''application/json'' else None)
        \<and> response_schema g =
            (if needsStructuredOutput (sampleObj options)
                \<and> structuredOutput (capabilities modelInfo)
             then Some (objectToGoogleSchema (sampleObj options)) else None)
        \<and> contents g =
            Google_formatMessages
              (if needsStructuredOutput (sampleObj options)
                  \<and> \<not> structuredOutput (capabilities modelInfo)
               then enhancePromptWithStructure P msgs (sampleObj options) else msgs))
   \<and> (\<forall>r calls'. OpenAI_prompt P this msgs model options calls = (Inr r, calls') \<longrightarrow>
         data r =
           (if needsStructuredOutput (sampleObj options)
            then (case JSON_parse P (completion_text r) of
                    Inr v \<Rightarrow> v | Inl err \<Rightarrow> JStr (completion_text r))
            else JStr (completion_text r)))
   \<and> (\<forall>r calls'. Google_prompt P this msgs model options calls = (Inr r, calls') \<longrightarrow>
         data r =
           (if needsStructuredOutput (sampleObj options)
            then (case JSON_parse P (completion_text r) of
                    Inr v \<Rightarrow> v | Inl err \<Rightarrow> JStr (completion_text r))
            else JStr (completion_text r)))"
  using needsStructuredOutput_cases[of "sampleObj options"]
    OpenAI_prompt_request_body[of P this modelInfo msgs options]
    Google_prompt_request_body[of P this modelInfo msgs options]
    OpenAI_prompt_data[of P this msgs model options calls]
    Google_prompt_data[of P this msgs model options calls]
  unfolding needsStructuredOutput_def
  by blast

lemma structured_output_trigger_example:
  "needsStructuredOutput (sampleObj (no_options\<lparr>sampleObj := JObj []\<rparr>))
   \<and> \<not> needsStructuredOutput (sampleObj (no_options\<lparr>sampleObj := JStr ''a word''\<rparr>))
   \<and> \<not> needsStructuredOutput (sampleObj no_options)
   \<and> fst (Google_prompt (sample_platform ''42'' []) sample_provider moons_question
            Gemini2Flash (no_options\<lparr>sampleObj := JObj []\<rparr>) [])
       = Inr \<lparr>completion_text = ''42'', data = JNum 42,
              usage = \<lparr>promptTokens = 12, completionTokens = 3, totalTokens = 15\<rparr>,
              completion_model = ''google/Gemini 2.0 Flash'', completion_provider = Google\<rparr>
   \<and> fst (Google_prompt (sample_platform ''42'' []) sample_provider moons_question
            Gemini2Flash (no_options\<lparr>sampleObj := JStr ''a word''\<rparr>) [])
       = Inr \<lparr>completion_text = ''42'', data = JStr ''42'',
              usage = \<lparr>promptTokens = 12, completionTokens = 3, totalTokens = 15\<rparr>,
              completion_model = ''google/Gemini 2.0 Flash'', completion_provider = Google\<rparr>"
  using structured_output_trigger [of "no_options\<lparr>sampleObj := JObj []\<rparr>"
      "sample_platform ''42'' []" sample_provider "hd Google_getModels" moons_question
      Gemini2Flash "[]", THEN conjunct2, THEN conjunct2]
  by (simp add: needsStructuredOutput_def Google_prompt_def Let_def do_fetch_def
      sample_platform_sel sample_response_def sample_parse_def no_options_def
      Google_getModels_def Gemini2Flash_def
      parseJsonResponse_def Google_model_type_def provider_name_def)

text \<open>
  Claim C4 at inputs where the code departs from it: the examples \<open>0\<close> and \<open>false\<close>, which
  are supplied and are not strings. The source tests \<open>options.sampleObj && ...\<close> under the
  comment \<open>If T is not string and the model supports structured output, use it\<close>, and the
  test takes these examples for absent ones. With the example \<open>0\<close> and no message that
  mentions JSON, OpenAIProvider.prompt raises no validation error and returns the text
  \<open>42\<close> undecoded as \<open>data\<close>, where the example \<open>{}\<close> makes the same call fail; with the
  example \<open>false\<close>, GoogleProvider.prompt returns the text undecoded, where the example
  \<open>{}\<close> makes it decode the number.
\<close>

theorem falsy_example_not_enforced:
  "needsStructuredOutput (JNum 0) = False
   \<and> needsStructuredOutput (JBool False) = False
   \<and> needsStructuredOutput (JObj []) = True
   \<and> mentions_json moons_question = False
   \<and> fst (OpenAI_prompt (sample_platform ''42'' []) sample_provider moons_question
            GPT4oMini (no_options\<lparr>sampleObj := JNum 0\<rparr>) [])
       = Inr \<lparr>completion_text = ''42'', data = JStr ''42'',
              usage = \<lparr>promptTokens = 12, completionTokens = 3, totalTokens = 15\<rparr>,
              completion_model = ''openai/GPT-4o-mini'', completion_provider = OpenAI\<rparr>
   \<and> fst (OpenAI_prompt (sample_platform ''42'' []) sample_provider moons_question
            GPT4oMini (no_options\<lparr>sampleObj := JObj []\<rparr>) [])
       = Inl (Error json_required)
   \<and> fst (Google_prompt (sample_platform ''42'' []) sample_provider moons_question
            Gemini2Flash (no_options\<lparr>sampleObj := JBool False\<rparr>) [])
       = Inr \<lparr>completion_text = ''42'', data = JStr ''42'',
              usage = \<lparr>promptTokens = 12, completionTokens = 3, totalTokens = 15\<rparr>,
              completion_model = ''google/Gemini 2.0 Flash'', completion_provider = Google\<rparr>
   \<and> fst (Google_prompt (sample_platform ''42'' []) sample_provider moons_question
            Gemini2Flash (no_options\<lparr>sampleObj := JObj []\<rparr>) [])
       = Inr \<lparr>completion_text = ''42'', data = JNum 42,
              usage = \<lparr>promptTokens = 12, completionTokens = 3, totalTokens = 15\<rparr>,
              completion_model = ''google/Gemini 2.0 Flash'', completion_provider = Google\<rparr>"
  by (simp add: needsStructuredOutput_def OpenAI_prompt_def Google_prompt_def Let_def do_fetch_def
      sample_platform_def sample_response_def sample_completion_def 
      sample_parse_def no_options_def OpenAI_getModels_def Google_getModels_def
      GPT4oMini_def Gemini2Flash_def moons_question_def mentions_json_def toLowerCase_def lower_char_def
      parseJsonResponse_def OpenAI_model_type_def Google_model_type_def provider_name_def)

text \<open>
  The check for the word \<open>json\<close>. In \<open>prompt\<close> it covers the one request: without the
  word the call fails before any request is made, and with it that error is not raised.
  In \<open>createBatch\<close> it covers the batch as a whole.
\<close>

lemma OpenAI_prompt_requires_json:
  assumes "needsStructuredOutput (sampleObj options)" and "\<not> mentions_json msgs"
  shows "\<exists>msg. OpenAI_prompt P this msgs model options calls = (Inl (Error msg), calls)"
  using assms by (simp add: OpenAI_prompt_def split: option.splits)

lemma OpenAI_prompt_json_present:
  assumes "mentions_json msgs"
  shows "fst (OpenAI_prompt P this msgs model options calls) \<noteq> Inl (Error json_required)"
  using assms
  by (simp add: OpenAI_prompt_def Let_def do_fetch_def json_required_def
      split: option.splits list.splits prod.splits)

lemma OpenAI_createBatch_requires_json:
  assumes "needsStructuredOutput (sampleObj options)"
    and "\<not> list_ex (\<lambda>m. mentions_json (messages m)) prompts"
  shows "\<exists>msg. OpenAI_createBatch P this prompts model options calls = (Inl (Error msg), calls)"
  using assms by (simp add: OpenAI_createBatch_def split: option.splits)

text \<open>
  Claim C3 at an input where the code departs from it: a batch of two items with an
  object example, where only the first item mentions JSON. The check passes, both
  requests (the upload and the job) are made, and the job is created.
\<close>

theorem createBatch_json_check_not_per_item:
  "needsStructuredOutput (sampleObj (no_batch_options\<lparr>sampleObj := capital_example\<rparr>))
   \<and> mentions_json (messages plain_item) = False
   \<and> fst (OpenAI_createBatch (sample_platform ''Paris'' []) sample_provider
            [json_item, plain_item] GPT4oMini
            (no_batch_options\<lparr>sampleObj := capital_example\<rparr>) [])
       = Inr \<lparr>requestIds = [''france'', ''italy''], batchId = ''batch_abc''\<rparr>
   \<and> length (snd (OpenAI_createBatch (sample_platform ''Paris'' []) sample_provider
            [json_item, plain_item] GPT4oMini
            (no_batch_options\<lparr>sampleObj := capital_example\<rparr>) [])) = 2"
  by (simp add: needsStructuredOutput_def OpenAI_createBatch_def Let_def do_fetch_def
      OpenAI_uploadFile_def requestId_def strip_non_alnum_def alnum_char_def
      sample_platform_def sample_response_def capital_example_def
      no_batch_options_def OpenAI_getModels_def json_item_def plain_item_def
      GPT4oMini_def mentions_json_def toLowerCase_def lower_char_def)

section \<open>The batch id the backend sees\<close>

lemma js_includes_char: "js_includes s [c] \<longleftrightarrow> c \<in> set s"
  by (induction s) auto

lemma js_split_not_Nil: "js_split sep s \<noteq> []"
  by (induction s) (auto split: list.splits)

lemma js_join_Cons_Cons: "js_join sep ((c # p) # ps) = c # js_join sep (p # ps)"
  by (cases ps) simp_all

lemma js_join_split: "js_join [sep] (js_split sep s) = s"
proof (induction s)
  case Nil
  show ?case by simp
next
  case (Cons c cs)
  obtain p ps where ps: "js_split sep cs = p # ps"
    using js_split_not_Nil[of sep cs] by (cases "js_split sep cs") auto
  show ?case
    using Cons.IH by (simp add: ps js_join_Cons_Cons)
qed

lemma js_split_at_sep:
  "sep \<in> set s \<Longrightarrow>
   js_split sep s = takeWhile (\<lambda>c. c \<noteq> sep) s # js_split sep (tl (dropWhile (\<lambda>c. c \<noteq> sep) s))"
proof (induction s)
  case Nil
  then show ?case by simp
next
  case (Cons c cs)
  show ?case
  proof (cases "c = sep")
    case True
    then show ?thesis by simp
  next
    case False
    with Cons.prems have "sep \<in> set cs" by simp
    from Cons.IH[OF this] False show ?thesis by simp
  qed
qed

lemma actualBatchId_eq:
  "actualBatchId bid =
     (if CHR ''_'' \<in> set bid then tl (dropWhile (\<lambda>c. c \<noteq> CHR ''_'') bid) else bid)"
  by (simp add: actualBatchId_def js_includes_char js_split_at_sep js_join_split)

lemma snd_OpenAI_checkBatch:
  "snd (OpenAI_checkBatch P this bid model calls) = calls @ [OpenAI_check_request this bid]"
  by (simp add: OpenAI_checkBatch_def do_fetch_def Let_def)

lemma OpenAI_checkBatch_id:
  "OpenAI_checkBatch P this bid model calls = (Inr st, calls') \<Longrightarrow> status_id st = bid"
  by (auto simp: OpenAI_checkBatch_def do_fetch_def Let_def split: if_splits)

lemma snd_OpenAI_retrieveBatch:
  "snd (OpenAI_retrieveBatch P this bid model sample calls) = calls @ [OpenAI_check_request this bid]
   \<or> (\<exists>fileId. snd (OpenAI_retrieveBatch P this bid model sample calls)
         = calls @ [OpenAI_check_request this bid, OpenAI_content_request this fileId])"
proof (cases "OpenAI_checkBatch P this bid model calls")
  case (Pair res calls')
  with snd_OpenAI_checkBatch[of P this bid model calls]
  have c: "calls' = calls @ [OpenAI_check_request this bid]" by simp
  show ?thesis
    by (cases res) (auto simp: OpenAI_retrieveBatch_def Pair c do_fetch_def Let_def)
qed

text \<open>
  Claim C10. \<open>actualBatchId\<close> is what follows the first underscore of the batch id, and
  the id itself when it has no underscore. \<open>checkBatch\<close> makes one request, to
  \<open>/batches/\<close> followed by that id, and a status it returns carries the batch id as it
  was given; \<open>cancelBatch\<close> makes one request, to the same address followed by
  \<open>/cancel\<close>; \<open>retrieveBatch\<close> makes the request of \<open>checkBatch\<close> and at most one
  more, for the content of the output file the backend named.
\<close>

theorem batch_id_prefix_stripped:
  "actualBatchId bid =
     (if CHR ''_'' \<in> set bid then tl (dropWhile (\<lambda>c. c \<noteq> CHR ''_'') bid) else bid)
   \<and> snd (OpenAI_checkBatch P this bid model calls) = calls @ [OpenAI_check_request this bid]
   \<and> url (OpenAI_check_request this bid) = baseUrl this @ ''/batches/'' @ actualBatchId bid
   \<and> (\<forall>st calls'. OpenAI_checkBatch P this bid model calls = (Inr st, calls')
         \<longrightarrow> status_id st = bid)
   \<and> snd (OpenAI_cancelBatch P this bid model calls) = calls @ [OpenAI_cancel_request this bid]
   \<and> url (OpenAI_cancel_request this bid)
        = baseUrl this @ ''/batches/'' @ actualBatchId bid @ ''/cancel''
   \<and> (snd (OpenAI_retrieveBatch P this bid model sample calls)
          = calls @ [OpenAI_check_request this bid]
        \<or> (\<exists>fileId. snd (OpenAI_retrieveBatch P this bid model sample calls)
              = calls @ [OpenAI_check_request this bid, OpenAI_content_request this fileId]))"
proof -
  have cancel: "snd (OpenAI_cancelBatch P this bid model calls)
      = calls @ [OpenAI_cancel_request this bid]"
    by (simp add: OpenAI_cancelBatch_def do_fetch_def Let_def)
  have u1: "url (OpenAI_check_request this bid) = baseUrl this @ ''/batches/'' @ actualBatchId bid"
    by (simp add: OpenAI_check_request_def)
  have u2: "url (OpenAI_cancel_request this bid)
        = baseUrl this @ ''/batches/'' @ actualBatchId bid @ ''/cancel''"
    by (simp add: OpenAI_cancel_request_def)
  show ?thesis
    using actualBatchId_eq[of bid] snd_OpenAI_checkBatch[of P this bid model calls]
      OpenAI_checkBatch_id[of P this bid model calls] cancel u1 u2
      snd_OpenAI_retrieveBatch[of P this bid model sample calls]
    by blast
qed

theorem batch_id_prefix_stripped_witness:
  "actualBatchId ''TestBatchAgent_batch_abc'' = ''batch_abc''
   \<and> actualBatchId ''batchabc'' = ''batchabc''
   \<and> url (OpenAI_check_request sample_provider ''TestBatchAgent_batch_abc'')
        = ''https://api.example.com/v1/batches/batch_abc''
   \<and> (\<exists>st calls'. OpenAI_checkBatch (sample_platform ''Paris'' []) sample_provider
          ''TestBatchAgent_batch_abc'' GPT4oMini [] = (Inr st, calls')
          \<and> status_id st = ''TestBatchAgent_batch_abc'')
   \<and> url (OpenAI_cancel_request sample_provider ''TestBatchAgent_batch_abc'')
        = ''https://api.example.com/v1/batches/batch_abc/cancel''"
proof -
  have a: "actualBatchId ''TestBatchAgent_batch_abc'' = ''batch_abc''"
    using batch_id_prefix_stripped [of "''TestBatchAgent_batch_abc''"] by simp
  have b: "actualBatchId ''batchabc'' = ''batchabc''"
    using batch_id_prefix_stripped [of "''batchabc''"] by simp
  have c: "\<exists>st calls'. OpenAI_checkBatch (sample_platform ''Paris'' []) sample_provider
          ''TestBatchAgent_batch_abc'' GPT4oMini [] = (Inr st, calls')"
    by (simp add: OpenAI_checkBatch_def do_fetch_def Let_def sample_platform_def
        sample_response_def)
  show ?thesis
    using a b c
      batch_id_prefix_stripped [of "''TestBatchAgent_batch_abc''" "sample_platform ''Paris'' []"
        sample_provider GPT4oMini "[]"]
    by (auto simp: sample_provider_def)
qed

section \<open>Correlation ids\<close>

lemma sample_now: "string_of_nat (Date_now (sample_platform txt document) i) = ''1700000000000''"
  by (simp add: sample_platform_def string_of_nat.simps digit_char_def)

lemma requestId_closed_form:
  "requestId P options prompt i =
     (if truthy_str (map_option strip_non_alnum (request_id prompt))
      then strip_non_alnum (the (request_id prompt))
      else (if truthy_str (agentName options)
            then strip_non_alnum (the (agentName options)) @ ''_'' else [])
           @ (if truthy_str (batchName options)
              then strip_non_alnum (the (batchName options)) @ ''_'' else [])
           @ string_of_nat (Date_now P i) @ ''_'' @ string_of_nat i)"
  by (simp add: requestId_def Let_def)

lemma createBatch_loop_ids:
  "createBatch_loop P modelInfo options i prompts jsonl requests = Inr (jsonl', requests') \<Longrightarrow>
   map custom_id requests'
     = map custom_id requests @ map (\<lambda>(j, prompt). requestId P options prompt j) (enumerate i prompts)"
proof (induction prompts arbitrary: i jsonl requests)
  case Nil
  then show ?case by simp
next
  case (Cons prompt rest)
  from Cons.prems show ?case
    by (auto simp: Let_def split: if_splits dest!: Cons.IH)
qed

lemma OpenAI_createBatch_steps:
  assumes "OpenAI_createBatch P this prompts model options calls = (Inr r, calls')"
  shows "\<exists>modelInfo jsonl requests upload job.
           createBatch_loop P modelInfo options 0 prompts [] [] = Inr (jsonl, requests)
         \<and> calls' = (calls @ [upload]) @ [job]
         \<and> requestIds r = map custom_id requests
         \<and> batchId r = batch_id (as_BatchResponse (fetchFn P (calls @ [upload]) job))"
proof -
  from assms obtain modelInfo
    where f: "find (\<lambda>m. info_name m = model) OpenAI_getModels = Some modelInfo"
    by (cases "find (\<lambda>m. info_name m = model) OpenAI_getModels")
       (auto simp: OpenAI_createBatch_def)
  from assms f obtain jsonl requests
    where l: "createBatch_loop P modelInfo options 0 prompts [] [] = Inr (jsonl, requests)"
    by (cases "createBatch_loop P modelInfo options 0 prompts [] []")
       (auto simp: OpenAI_createBatch_def split: if_splits)
  define upload where "upload = OpenAI_upload_request this jsonl"
  define fileId where "fileId = file_id (as_FileUploadResponse (fetchFn P calls upload))"
  define job where "job = OpenAI_batches_request this
      \<lparr>input_file_id = fileId, endpoint = ''/v1/chat/completions'',
       completion_window = completion_window_of (timeoutSeconds options)\<rparr>"
  have u: "OpenAI_uploadFile P this jsonl calls =
      (if \<not> ok (fetchFn P calls upload)
       then Inl (Error (''Failed to upload file: '' @ error_json (fetchFn P calls upload)))
       else Inr fileId, calls @ [upload])"
    by (simp add: OpenAI_uploadFile_def do_fetch_def upload_def fileId_def)
  from assms have "calls' = (calls @ [upload]) @ [job]
         \<and> requestIds r = map custom_id requests
         \<and> batchId r = batch_id (as_BatchResponse (fetchFn P (calls @ [upload]) job))"
    by (auto simp: OpenAI_createBatch_def f l u do_fetch_def job_def[symmetric] Let_def
        split: if_splits)
  with l show ?thesis by blast
qed

lemma OpenAI_createBatch_result:
  assumes "OpenAI_createBatch P this prompts model options calls = (Inr r, calls')"
  shows "requestIds r = map (\<lambda>(j, prompt). requestId P options prompt j) (enumerate 0 prompts)
       \<and> batchId r = batch_id (as_BatchResponse (fetchFn P (butlast calls') (last calls')))"
proof -
  from OpenAI_createBatch_steps[OF assms] obtain modelInfo jsonl requests upload job
    where l: "createBatch_loop P modelInfo options 0 prompts [] [] = Inr (jsonl, requests)"
      and c: "calls' = (calls @ [upload]) @ [job]"
      and i: "requestIds r = map custom_id requests"
      and b: "batchId r = batch_id (as_BatchResponse (fetchFn P (calls @ [upload]) job))"
    by blast
  from createBatch_loop_ids[OF l] i
  have "requestIds r = map (\<lambda>(j, prompt). requestId P options prompt j) (enumerate 0 prompts)"
    by simp
  moreover have "butlast calls' = calls @ [upload]" "last calls' = job"
    unfolding c by (rule butlast_snoc, rule last_snoc)
  ultimately show ?thesis using b by simp
qed

text \<open>
  Claim C2, as the code has it. The correlation id of an item is the item's own id
  stripped to letters and digits when that is not empty; otherwise it is the timestamp and
  the index joined by an underscore, prefixed by the stripped batch name and an
  underscore when a batch name is given, and before that by the stripped agent name and
  an underscore when an agent name is given. When \<open>createBatch\<close> returns, it returns
  these ids, one per item in the order of submission, with the id of the job the backend
  created.
\<close>

theorem correlation_ids:
  "requestId P options prompt i =
     (if truthy_str (map_option strip_non_alnum (request_id prompt))
      then strip_non_alnum (the (request_id prompt))
      else (if truthy_str (agentName options)
            then strip_non_alnum (the (agentName options)) @ ''_'' else [])
           @ (if truthy_str (batchName options)
              then strip_non_alnum (the (batchName options)) @ ''_'' else [])
           @ string_of_nat (Date_now P i) @ ''_'' @ string_of_nat i)
   \<and> (\<forall>r calls'. OpenAI_createBatch P this prompts model options calls = (Inr r, calls') \<longrightarrow>
         requestIds r = map (\<lambda>(j, item). requestId P options item j) (enumerate 0 prompts)
         \<and> length (requestIds r) = length prompts
         \<and> batchId r = batch_id (as_BatchResponse (fetchFn P (butlast calls') (last calls'))))"
  using requestId_closed_form[of P options prompt i]
    OpenAI_createBatch_result[of P this prompts model options calls]
  by auto

lemma small_indices:
  "string_of_nat 0 = ''0''" "string_of_nat (Suc 0) = ''1''" "string_of_nat (Suc (Suc 0)) = ''2''"
  by (simp_all add: string_of_nat.simps digit_char_def)

lemma strips:
  "strip_non_alnum ''summarizer'' = ''summarizer''"
  "strip_non_alnum ''nightly'' = ''nightly''"
  "strip_non_alnum ''france'' = ''france''"
  by (simp_all add: strip_non_alnum_def alnum_char_def)

lemma sample_requestIds:
  "requestId (sample_platform txt document) nightly_options anonymous_item 0
     = ''summarizer_nightly_1700000000000_0''"
  "requestId (sample_platform txt document) nightly_options json_item (Suc 0) = ''france''"
  "requestId (sample_platform txt document) nightly_options anonymous_item (Suc (Suc 0))
     = ''summarizer_nightly_1700000000000_2''"
  by (simp_all add: requestId_closed_form sample_now small_indices strips nightly_options_def
      anonymous_item_def json_item_def no_batch_options_def)

text \<open>
  Claim C2 as stated fails: with a batch name and an agent name and no item id, the id
  is built from both names and the timestamp, not from the first source alone; and an
  item id wins over a batch name that is given.
\<close>

theorem correlation_id_counterexample:
  "requestId (sample_platform ''Paris'' []) nightly_options anonymous_item 0
     = ''summarizer_nightly_1700000000000_0''
   \<and> requestId (sample_platform ''Paris'' []) nightly_options anonymous_item 0
     \<noteq> first_nonempty_source (batchName nightly_options) (agentName nightly_options)
         (request_id anonymous_item) ''1700000000000_0''
   \<and> requestId (sample_platform ''Paris'' []) nightly_options json_item (Suc 0) = ''france''
   \<and> requestId (sample_platform ''Paris'' []) nightly_options json_item (Suc 0)
     \<noteq> first_nonempty_source (batchName nightly_options) (agentName nightly_options)
         (request_id json_item) ''1700000000000_1''"
proof -
  have a: "first_nonempty_source (batchName nightly_options) (agentName nightly_options)
         (request_id anonymous_item) ''1700000000000_0'' = ''nightly''"
    by (simp add: first_nonempty_source_def nightly_options_def anonymous_item_def
        no_batch_options_def strips List.map_filter_def)
  have b: "first_nonempty_source (batchName nightly_options) (agentName nightly_options)
         (request_id json_item) ''1700000000000_1'' = ''nightly''"
    by (simp add: first_nonempty_source_def nightly_options_def json_item_def
        no_batch_options_def strips List.map_filter_def)
  show ?thesis
    unfolding a b sample_requestIds by simp
qed

theorem correlation_ids_witness:
  "fst (OpenAI_createBatch (sample_platform ''Paris'' []) sample_provider
          [anonymous_item, json_item, anonymous_item] GPT4oMini nightly_options [])
     = Inr \<lparr>requestIds = [''summarizer_nightly_1700000000000_0'', ''france'',
                           ''summarizer_nightly_1700000000000_2''],
            batchId = ''batch_abc''\<rparr>"
proof -
  have n: "\<not> needsStructuredOutput (sampleObj nightly_options)"
    by (simp add: needsStructuredOutput_def nightly_options_def no_batch_options_def)
  have m: "messages anonymous_item \<noteq> []" "length (messages anonymous_item) = 1"
    "messages json_item \<noteq> []" "length (messages json_item) = 1"
    by (simp_all add: anonymous_item_def json_item_def)
  show ?thesis
    using correlation_ids [of "sample_platform ''Paris'' []" nightly_options anonymous_item 0
        sample_provider "[anonymous_item, json_item, anonymous_item]" GPT4oMini "[]",
        THEN conjunct2]
    by (simp add: OpenAI_createBatch_def OpenAI_uploadFile_def do_fetch_def Let_def n m
        sample_requestIds sample_platform_sel sample_response_def
        OpenAI_getModels_def GPT4oMini_def)
qed

section \<open>Retrieving a batch\<close>


text \<open>
  Where the loop stops with a TypeError: at a line that is JSON, carries no error and has a
  response body, when that body has no completion choice, or when the line is not skipped
  for its text and its custom id is not a string.
\<close>

lemma retrieveBatch_loop_throws:
  assumes "JSON_parse_line P raw = Inr line"
    and "line_error line = None" and "line_response line = Some response"
    and "case choices response of
           [] \<Rightarrow> True
         | choice # _ \<Rightarrow>
             (truthy sample \<and> js_typeof sample = ''object''
                \<longrightarrow> \<not> isl (JSON_parse P (wire_content choice)))
             \<and> js_typeof (line_custom_id line) \<noteq> ''string''"
  shows "retrieveBatch_loop P model sample (raw # rest) responses = Inl TypeError"
  using assms
  by (cases "line_custom_id line")
     (auto simp: Let_def parseJsonResponse_def split: list.splits sum.splits)








section \<open>What the prompt enhancement leaves of its argument\<close>

lemma cell_at_append:
  "cell_at (h @ cs) r = (if r < length h then cell_at h r else cell_at cs (r - length h))"
  by (auto simp: cell_at_def nth_append)

lemma cell_at_old: "r < length h \<Longrightarrow> cell_at (h @ cs) r = cell_at h r"
  by (simp add: cell_at_append)

lemma message_at_bound: "message_at h r = Some m \<Longrightarrow> r < length h"
  by (auto simp: message_at_def cell_at_def split: if_splits)

lemma message_at_old: "r < length h \<Longrightarrow> message_at (h @ cs) r = message_at h r"
  by (simp add: message_at_def cell_at_old)

lemma those_map_iff:
  "those (map f rs) = Some ms \<longleftrightarrow> list_all2 (\<lambda>r m. f r = Some m) rs ms"
proof (induction rs arbitrary: ms)
  case Nil
  then show ?case by auto
next
  case (Cons r rs)
  show ?case
    by (cases ms) (auto simp: Cons.IH split: option.splits)
qed

lemma read_messages_iff:
  "read_messages h r = Some ms \<longleftrightarrow>
     (\<exists>rs. cell_at h r = Some (MessageArr rs)
          \<and> list_all2 (\<lambda>r m. message_at h r = Some m) rs ms)"
  by (auto simp: read_messages_def those_map_iff split: option.splits cell.splits)

lemma findLastIndex_rel:
  "list_all2 (\<lambda>r m. p r = q m) rs ms \<Longrightarrow> findLastIndex p rs = findLastIndex q ms"
  by (induction rule: list_all2_induct) simp_all

lemma findLastIndex_Some:
  "findLastIndex p xs = Some i \<Longrightarrow>
     i < length xs \<and> p (xs ! i) \<and> (\<forall>j. i < j \<and> j < length xs \<longrightarrow> \<not> p (xs ! j))"
proof (induction xs arbitrary: i)
  case Nil
  then show ?case by simp
next
  case (Cons x xs)
  show ?case
  proof (cases "findLastIndex p xs")
    case None
    have none: "\<And>ys. findLastIndex p ys = None \<Longrightarrow> \<forall>y\<in>set ys. \<not> p y"
    proof -
      fix ys show "findLastIndex p ys = None \<Longrightarrow> \<forall>y\<in>set ys. \<not> p y"
        by (induction ys) (auto split: option.splits if_splits)
    qed
    from Cons.prems None have i: "i = 0" "p x" by (auto split: if_splits)
    from none[OF None] have "\<forall>j. 0 < j \<and> j < length (x # xs) \<longrightarrow> \<not> p ((x # xs) ! j)"
      by (auto simp: nth_Cons split: nat.splits)
    with i show ?thesis by simp
  next
    case (Some k)
    with Cons.prems have i: "i = Suc k" by simp
    from Cons.IH[OF Some] show ?thesis
      by (auto simp: i nth_Cons split: nat.splits)
  qed
qed

lemma findLastIndex_None: "findLastIndex p xs = None \<longleftrightarrow> (\<forall>x\<in>set xs. \<not> p x)"
  by (induction xs) (auto split: option.splits)
lemma enhancePromptWithStructure_cases:
  "enhancePromptWithStructure P ms sample =
     (case findLastIndex (\<lambda>m. role m = User) ms of
        Some i \<Rightarrow>
          ms[i := (ms ! i)\<lparr>content := content (ms ! i) @ [CHR 0x0A, CHR 0x0A]
                                      @ structure_request @ structure_text P sample\<rparr>]
      | None \<Rightarrow> ms @ [\<lparr>role = User, content = structure_request @ structure_text P sample\<rparr>])"
  by (simp add: enhancePromptWithStructure_def Let_def)

lemma message_refs_bound:
  "list_all2 (\<lambda>r m. message_at h r = Some m) rs ms \<Longrightarrow> \<forall>r\<in>set rs. r < length h"
  by (induction rule: list_all2_induct) (auto intro: message_at_bound)

lemma enhancePromptWithStructure_store_eq:
  assumes c: "cell_at h msgs = Some (MessageArr rs)"
    and l: "list_all2 (\<lambda>r m. message_at h r = Some m) rs ms"
  shows "enhancePromptWithStructure_store P h msgs sample =
     (case findLastIndex (\<lambda>m. role m = User) ms of
        Some i \<Rightarrow>
          (h @ [MessageArr (rs[i := Suc (length h)]),
                MessageObj ((ms ! i)\<lparr>content := content (ms ! i) @ [CHR 0x0A, CHR 0x0A]
                                      @ structure_request @ structure_text P sample\<rparr>)],
           length h)
      | None \<Rightarrow>
          (h @ [MessageArr (rs @ [Suc (length h)]),
                MessageObj \<lparr>role = User, content = structure_request @ structure_text P sample\<rparr>],
           length h))"
proof -
  define h1 where "h1 = h @ [MessageArr rs]"
  have e: "elements h msgs = rs" by (simp add: elements_def c)
  have e1: "elements h1 (length h) = rs"
    by (simp add: elements_def cell_at_def h1_def)
  have bound: "\<forall>r\<in>set rs. r < length h"
    using l by (rule message_refs_bound)
  have l1: "list_all2 (\<lambda>r m. message_at h1 r = Some m) rs ms"
    using l bound unfolding h1_def
    by (auto simp: list_all2_conv_all_nth message_at_old)
  have rel: "list_all2 (\<lambda>r m. has_role h1 User r = (role m = User)) rs ms"
    using l1 by (auto simp: list_all2_conv_all_nth has_role_def)
  have f: "findLastIndex (has_role h1 User) rs = findLastIndex (\<lambda>m. role m = User) ms"
    by (rule findLastIndex_rel[OF rel])
  have len: "length rs = length ms" using l by (rule list_all2_lengthD)
  show ?thesis
  proof (cases "findLastIndex (\<lambda>m. role m = User) ms")
    case None
    have "elements (h1 @ [c]) (length h) = rs" for c
      by (simp add: elements_def cell_at_def h1_def nth_append)
    then show ?thesis
      by (simp add: enhancePromptWithStructure_store_def alloc_def Let_def e h1_def[symmetric]
          e1 f None) (simp add: h1_def list_update_append)
  next
    case (Some i)
    from findLastIndex_Some[OF Some] have i: "i < length ms" by simp
    with l1 len have m: "message_at h1 (rs ! i) = Some (ms ! i)"
      by (simp add: list_all2_conv_all_nth)
    have "elements (h1 @ [c]) (length h) = rs" for c
      by (simp add: elements_def cell_at_def h1_def nth_append)
    then show ?thesis
      by (simp add: enhancePromptWithStructure_store_def alloc_def Let_def e h1_def[symmetric]
          e1 f Some m) (simp add: h1_def list_update_append)
  qed
qed
lemma read_messages_old:
  assumes "read_messages h r = Some ms"
  shows "read_messages (h @ cs) r = Some ms"
proof -
  from assms obtain rs where c: "cell_at h r = Some (MessageArr rs)"
    and l: "list_all2 (\<lambda>r m. message_at h r = Some m) rs ms"
    by (auto simp: read_messages_iff)
  from c have "r < length h" by (auto simp: cell_at_def split: if_splits)
  then have c': "cell_at (h @ cs) r = Some (MessageArr rs)" by (simp add: cell_at_old c)
  have "list_all2 (\<lambda>r m. message_at (h @ cs) r = Some m) rs ms"
    using l message_refs_bound[OF l]
    by (auto simp: list_all2_conv_all_nth message_at_old)
  with c' show ?thesis by (auto simp: read_messages_iff)
qed

text \<open>
  Claim C6. \<open>enhancePromptWithStructure\<close>, given a message list, leaves every cell of
  the store as it was (the list and its message objects among them) and returns a new
  list. The contents of the new list are those of the old one, except that the structure
  instruction is appended to the content of the last message whose role is user, or,
  when there is no such message, a new user message that holds only the instruction is
  added at the end. This holds for every example value.
\<close>

theorem enhancePromptWithStructure_pure:
  assumes "read_messages h msgs = Some ms"
  shows "(case enhancePromptWithStructure_store P h msgs sample of
            (h', out) \<Rightarrow>
              take (length h) h' = h
            \<and> read_messages h' msgs = Some ms
            \<and> out = length h
            \<and> read_messages h' out = Some (enhancePromptWithStructure P ms sample))
       \<and> (case findLastIndex (\<lambda>m. role m = User) ms of
            Some i \<Rightarrow>
              i < length ms \<and> role (ms ! i) = User
            \<and> (\<forall>j. i < j \<and> j < length ms \<longrightarrow> role (ms ! j) \<noteq> User)
            \<and> enhancePromptWithStructure P ms sample =
                ms[i := (ms ! i)\<lparr>content := content (ms ! i) @ [CHR 0x0A, CHR 0x0A]
                                      @ structure_request @ structure_text P sample\<rparr>]
          | None \<Rightarrow>
              (\<forall>m\<in>set ms. role m \<noteq> User)
            \<and> enhancePromptWithStructure P ms sample =
                ms @ [\<lparr>role = User, content = structure_request @ structure_text P sample\<rparr>])"
proof -
  from assms obtain rs where c: "cell_at h msgs = Some (MessageArr rs)"
    and l: "list_all2 (\<lambda>r m. message_at h r = Some m) rs ms"
    by (auto simp: read_messages_iff)
  let ?n = "length h"
  have bound: "\<forall>r\<in>set rs. r < ?n" using l by (rule message_refs_bound)
  have old: "list_all2 (\<lambda>r m. message_at (h @ cs) r = Some m) rs ms" for cs
    using l bound by (auto simp: list_all2_conv_all_nth message_at_old)
  show ?thesis
  proof (cases "findLastIndex (\<lambda>m. role m = User) ms")
    case None
    let ?new = "\<lparr>role = User, content = structure_request @ structure_text P sample\<rparr>"
    let ?h' = "h @ [MessageArr (rs @ [Suc ?n]), MessageObj ?new]"
    have s: "enhancePromptWithStructure_store P h msgs sample = (?h', ?n)"
      by (simp add: enhancePromptWithStructure_store_eq[OF c l] None)
    have v: "enhancePromptWithStructure P ms sample = ms @ [?new]"
      by (simp add: enhancePromptWithStructure_cases None)
    have m: "message_at ?h' (Suc ?n) = Some ?new"
      by (simp add: message_at_def cell_at_def nth_append)
    have "list_all2 (\<lambda>r m. message_at ?h' r = Some m) (rs @ [Suc ?n]) (ms @ [?new])"
      using old[of "[MessageArr (rs @ [Suc ?n]), MessageObj ?new]"] m
      by (intro list_all2_appendI) simp_all
    moreover have "cell_at ?h' ?n = Some (MessageArr (rs @ [Suc ?n]))"
      by (simp add: cell_at_def nth_append)
    ultimately have out: "read_messages ?h' ?n = Some (ms @ [?new])"
      by (auto simp: read_messages_iff)
    have keep: "read_messages ?h' msgs = Some ms"
      by (rule read_messages_old[OF assms])
    from None have "\<forall>m\<in>set ms. role m \<noteq> User" by (simp add: findLastIndex_None)
    then show ?thesis
      unfolding s v None using out keep by simp
  next
    case (Some i)
    let ?new = "(ms ! i)\<lparr>content := content (ms ! i) @ [CHR 0x0A, CHR 0x0A]
                                      @ structure_request @ structure_text P sample\<rparr>"
    let ?h' = "h @ [MessageArr (rs[i := Suc ?n]), MessageObj ?new]"
    have s: "enhancePromptWithStructure_store P h msgs sample = (?h', ?n)"
      by (simp add: enhancePromptWithStructure_store_eq[OF c l] Some)
    have v: "enhancePromptWithStructure P ms sample = ms[i := ?new]"
      by (simp add: enhancePromptWithStructure_cases Some)
    have m: "message_at ?h' (Suc ?n) = Some ?new"
      by (simp add: message_at_def cell_at_def nth_append)
    have "list_all2 (\<lambda>r m. message_at ?h' r = Some m) (rs[i := Suc ?n]) (ms[i := ?new])"
      using old[of "[MessageArr (rs[i := Suc ?n]), MessageObj ?new]"] m
      by (intro list_all2_update_cong) simp_all
    moreover have "cell_at ?h' ?n = Some (MessageArr (rs[i := Suc ?n]))"
      by (simp add: cell_at_def nth_append)
    ultimately have out: "read_messages ?h' ?n = Some (ms[i := ?new])"
      by (auto simp: read_messages_iff)
    have keep: "read_messages ?h' msgs = Some ms"
      by (rule read_messages_old[OF assms])
    from findLastIndex_Some[OF Some]
    have "i < length ms \<and> role (ms ! i) = User
            \<and> (\<forall>j. i < j \<and> j < length ms \<longrightarrow> role (ms ! j) \<noteq> User)"
      by simp
    then show ?thesis
      unfolding s v Some using out keep by simp
  qed
qed
lemma sample_store_messages:
  "read_messages sample_store 2 =
     Some [\<lparr>role = Developer, content = ''You are terse.''\<rparr>,
           \<lparr>role = User, content = ''Tell me about France''\<rparr>]"
  by (simp add: read_messages_def cell_at_def message_at_def sample_store_def)

theorem enhancePromptWithStructure_pure_witness:
  "read_messages sample_store 2 =
     Some [\<lparr>role = Developer, content = ''You are terse.''\<rparr>,
           \<lparr>role = User, content = ''Tell me about France''\<rparr>]
   \<and> enhancePromptWithStructure_store (sample_platform ''Paris'' []) sample_store 2
        capital_example
     = (sample_store
          @ [MessageArr [0, 4],
             MessageObj
               \<lparr>role = User,
                content = ''Tell me about France'' @ [CHR 0x0A, CHR 0x0A]
                  @ ''Please provide the response in the following JSON structure: ''
                  @ ''{'' @ [CHR 0x0A] @ ''  \"capital\": \"\"'' @ [CHR 0x0A] @ ''}''\<rparr>],
        3)
   \<and> enhancePromptWithStructure (sample_platform ''Paris'' [])
        [\<lparr>role = Developer, content = ''You are terse.''\<rparr>,
         \<lparr>role = User, content = ''Tell me about France''\<rparr>] capital_example
     = [\<lparr>role = Developer, content = ''You are terse.''\<rparr>,
        \<lparr>role = User,
         content = ''Tell me about France'' @ [CHR 0x0A, CHR 0x0A]
           @ ''Please provide the response in the following JSON structure: ''
           @ ''{'' @ [CHR 0x0A] @ ''  \"capital\": \"\"'' @ [CHR 0x0A] @ ''}''\<rparr>]"
proof -
  have st: "structure_text (sample_platform ''Paris'' []) capital_example
      = ''{'' @ [CHR 0x0A] @ ''  \"capital\": \"\"'' @ [CHR 0x0A] @ ''}''"
    by (simp add: structure_text_def sample_platform_sel sample_stringify_def
        capital_example_def)
  have a: "enhancePromptWithStructure_store (sample_platform ''Paris'' []) sample_store 2
        capital_example
     = (sample_store
          @ [MessageArr [0, 4],
             MessageObj
               \<lparr>role = User,
                content = ''Tell me about France'' @ [CHR 0x0A, CHR 0x0A]
                  @ ''Please provide the response in the following JSON structure: ''
                  @ ''{'' @ [CHR 0x0A] @ ''  \"capital\": \"\"'' @ [CHR 0x0A] @ ''}''\<rparr>],
        3)"
    by (simp add: enhancePromptWithStructure_store_def Let_def alloc_def elements_def
        cell_at_def message_at_def has_role_def sample_store_def st structure_request_def
        nth_append)
  have b: "enhancePromptWithStructure (sample_platform ''Paris'' [])
        [\<lparr>role = Developer, content = ''You are terse.''\<rparr>,
         \<lparr>role = User, content = ''Tell me about France''\<rparr>] capital_example
     = [\<lparr>role = Developer, content = ''You are terse.''\<rparr>,
        \<lparr>role = User,
         content = ''Tell me about France'' @ [CHR 0x0A, CHR 0x0A]
           @ ''Please provide the response in the following JSON structure: ''
           @ ''{'' @ [CHR 0x0A] @ ''  \"capital\": \"\"'' @ [CHR 0x0A] @ ''}''\<rparr>]"
    by (simp add: enhancePromptWithStructure_def Let_def st structure_request_def)
  show ?thesis
    using enhancePromptWithStructure_pure [OF sample_store_messages,
        of "sample_platform ''Paris'' []" capital_example] sample_store_messages a b
    by blast
qed
section \<open>What the agent leaves of its arguments\<close>

lemma filter_rel:
  "list_all2 R rs ms \<Longrightarrow> (\<And>r m. R r m \<Longrightarrow> p r = q m) \<Longrightarrow>
   list_all2 R (filter p rs) (filter q ms)"
  by (induction rule: list_all2_induct) auto

lemma prependBasePrompt_store_eq:
  assumes c: "cell_at h msgs = Some (MessageArr rs)"
    and l: "list_all2 (\<lambda>r m. message_at h r = Some m) rs ms"
  shows "\<exists>h' out. prependBasePrompt_store agent h msgs = (h', out)
           \<and> (\<exists>cs. h' = h @ cs \<and> (\<forall>c\<in>set cs. \<forall>rs'. c \<noteq> PromptsArr rs'))
           \<and> read_messages h' out = Some (prependBasePrompt agent ms)"
proof (cases "basePrompt agent = []")
  case True
  have "read_messages h msgs = Some ms" using c l by (auto simp: read_messages_iff)
  then show ?thesis
    by (simp add: prependBasePrompt_store_def prependBasePrompt_def True)
next
  case False
  let ?dev = "\<lparr>role = Developer, content = basePrompt agent\<rparr>"
  let ?n = "length h"
  define h1 where "h1 = h @ [MessageObj ?dev]"
  define kept where "kept = filter (\<lambda>m. \<not> has_role h1 Developer m) rs"
  define h' where "h' = h1 @ [MessageArr (?n # kept)]"
  have bound: "\<forall>r\<in>set rs. r < ?n" using l by (rule message_refs_bound)
  have msgs: "msgs < ?n" using c by (auto simp: cell_at_def split: if_splits)
  have e1: "elements h1 msgs = rs"
    using msgs c by (simp add: elements_def h1_def cell_at_old)
  have s: "prependBasePrompt_store agent h msgs = (h', Suc ?n)"
    by (simp add: prependBasePrompt_store_def False alloc_def Let_def h1_def[symmetric] e1
        kept_def[symmetric] h'_def) (simp add: h1_def)
  have l1: "list_all2 (\<lambda>r m. message_at h1 r = Some m) rs ms"
    using l bound unfolding h1_def by (auto simp: list_all2_conv_all_nth message_at_old)
  have lk: "list_all2 (\<lambda>r m. message_at h1 r = Some m) kept
              (filter (\<lambda>m. role m \<noteq> Developer) ms)"
    unfolding kept_def by (rule filter_rel[OF l1]) (simp add: has_role_def)
  have kb: "\<forall>r\<in>set kept. r < length h1"
    using lk by (rule message_refs_bound)
  have lk': "list_all2 (\<lambda>r m. message_at h' r = Some m) kept
              (filter (\<lambda>m. role m \<noteq> Developer) ms)"
    using lk kb unfolding h'_def by (auto simp: list_all2_conv_all_nth message_at_old)
  have d: "message_at h' ?n = Some ?dev"
    by (simp add: message_at_def cell_at_def h'_def h1_def nth_append)
  have o: "cell_at h' (Suc ?n) = Some (MessageArr (?n # kept))"
    by (simp add: cell_at_def h'_def h1_def nth_append)
  have r: "read_messages h' (Suc ?n) = Some (prependBasePrompt agent ms)"
    using o d lk' by (auto simp: read_messages_iff prependBasePrompt_def False)
  have "h' = h @ [MessageObj ?dev, MessageArr (?n # kept)]"
    by (simp add: h'_def h1_def)
  then show ?thesis using s r by auto
qed
lemma agree_refl: "agree p h h"
  by (simp add: agree_def)

lemma agree_trans: "agree p h h1 \<Longrightarrow> agree p h1 h2 \<Longrightarrow> agree p h h2"
  by (auto simp: agree_def)

lemma agree_append: "agree p h (h @ cs)"
  by (simp add: agree_def nth_append)

lemma agree_update: "agree p h (h[p := c])"
  by (simp add: agree_def)

lemma cell_at_agree:
  "agree p h h' \<Longrightarrow> cell_at h r = Some c \<Longrightarrow> r \<noteq> p \<Longrightarrow> cell_at h' r = Some c"
  by (auto simp: agree_def cell_at_def split: if_splits)

lemma message_at_agree:
  assumes "agree p h h'" and "cell_at h p = Some (PromptsArr x)" and "message_at h r = Some m"
  shows "message_at h' r = Some m"
proof -
  from assms(3) have c: "cell_at h r = Some (MessageObj m)"
    by (auto simp: message_at_def split: option.splits cell.splits)
  with assms(2) have "r \<noteq> p" by auto
  from cell_at_agree[OF assms(1) c this] show ?thesis by (simp add: message_at_def)
qed

lemma read_messages_agree:
  assumes a: "agree p h h'" and p: "cell_at h p = Some (PromptsArr x)"
    and r: "read_messages h r = Some ms"
  shows "read_messages h' r = Some ms"
proof -
  from r obtain rs where c: "cell_at h r = Some (MessageArr rs)"
    and l: "list_all2 (\<lambda>r m. message_at h r = Some m) rs ms"
    by (auto simp: read_messages_iff)
  from c p have "r \<noteq> p" by auto
  from cell_at_agree[OF a c this] have c': "cell_at h' r = Some (MessageArr rs)" .
  have "list_all2 (\<lambda>r m. message_at h' r = Some m) rs ms"
    using l by (rule list_all2_mono) (rule message_at_agree[OF a p])
  with c' show ?thesis by (auto simp: read_messages_iff)
qed

lemma read_item_cases:
  "read_item h r = Some item \<longleftrightarrow>
     (\<exists>rs ms. cell_at h r = Some (MessageArr rs) \<and> read_messages h r = Some ms
              \<and> item = Plain ms)
   \<or> (\<exists>rid msgs ms. cell_at h r = Some (RequestObj rid msgs) \<and> read_messages h msgs = Some ms
              \<and> item = Request \<lparr>request_id = rid, messages = ms\<rparr>)"
  by (auto simp: read_item_def split: option.splits cell.splits)

lemma read_item_agree:
  assumes a: "agree p h h'" and p: "cell_at h p = Some (PromptsArr x)"
    and r: "read_item h r = Some item"
  shows "read_item h' r = Some item"
  using r unfolding read_item_cases
proof (elim disjE exE conjE)
  fix rs ms
  assume c: "cell_at h r = Some (MessageArr rs)" and m: "read_messages h r = Some ms"
    and i: "item = Plain ms"
  from c p have "r \<noteq> p" by auto
  from cell_at_agree[OF a c this] read_messages_agree[OF a p m] i
  show "(\<exists>rs ms. cell_at h' r = Some (MessageArr rs) \<and> read_messages h' r = Some ms
              \<and> item = Plain ms)
   \<or> (\<exists>rid msgs ms. cell_at h' r = Some (RequestObj rid msgs) \<and> read_messages h' msgs = Some ms
              \<and> item = Request \<lparr>request_id = rid, messages = ms\<rparr>)"
    by blast
next
  fix rid msgs ms
  assume c: "cell_at h r = Some (RequestObj rid msgs)" and m: "read_messages h msgs = Some ms"
    and i: "item = Request \<lparr>request_id = rid, messages = ms\<rparr>"
  from c p have "r \<noteq> p" by auto
  from cell_at_agree[OF a c this] read_messages_agree[OF a p m] i
  show "(\<exists>rs ms. cell_at h' r = Some (MessageArr rs) \<and> read_messages h' r = Some ms
              \<and> item = Plain ms)
   \<or> (\<exists>rid msgs ms. cell_at h' r = Some (RequestObj rid msgs) \<and> read_messages h' msgs = Some ms
              \<and> item = Request \<lparr>request_id = rid, messages = ms\<rparr>)"
    by blast
qed

lemma prependBasePrompt_store_agree:
  assumes r: "read_messages h msgs = Some ms" and p: "cell_at h p = Some (PromptsArr x)"
  shows "\<exists>h' out. prependBasePrompt_store agent h msgs = (h', out)
           \<and> agree p h h' \<and> cell_at h' p = Some (PromptsArr x)
           \<and> out \<noteq> p
           \<and> (\<exists>rs. cell_at h' out = Some (MessageArr rs))
           \<and> read_messages h' out = Some (prependBasePrompt agent ms)"
proof -
  from r obtain rs where c: "cell_at h msgs = Some (MessageArr rs)"
    and l: "list_all2 (\<lambda>r m. message_at h r = Some m) rs ms"
    by (auto simp: read_messages_iff)
  from prependBasePrompt_store_eq[OF c l, of agent] obtain h' out cs
    where s: "prependBasePrompt_store agent h msgs = (h', out)"
      and h': "h' = h @ cs"
      and o: "read_messages h' out = Some (prependBasePrompt agent ms)"
    by blast
  have a: "agree p h h'" unfolding h' by (rule agree_append)
  have pl: "p < length h" using p by (auto simp: cell_at_def split: if_splits)
  then have p': "cell_at h' p = Some (PromptsArr x)" unfolding h' by (simp add: cell_at_old p)
  from o obtain rs' where co: "cell_at h' out = Some (MessageArr rs')"
    by (auto simp: read_messages_iff)
  with p' have "out \<noteq> p" by auto
  with s a p' co o show ?thesis by blast
qed
lemma slots_eq: "cell_at h p = Some (PromptsArr cur) \<Longrightarrow> slots h p = cur"
  by (simp add: slots_def)

lemma cell_at_update_same: "p < length h \<Longrightarrow> cell_at (h[p := c]) p = Some c"
  by (simp add: cell_at_def)

lemma cell_at_Some_bound: "cell_at h r = Some c \<Longrightarrow> r < length h"
  by (auto simp: cell_at_def split: if_splits)

lemma prepend_slot_step:
  assumes p: "cell_at h p = Some (PromptsArr cur)" and i: "idx < length cur"
    and r: "read_item h (cur ! idx) = Some item"
  shows "\<exists>r'. agree p h (prepend_slot agent p idx h)
           \<and> cell_at (prepend_slot agent p idx h) p = Some (PromptsArr (cur[idx := r']))
           \<and> read_item (prepend_slot agent p idx h) r' = Some (prepend_item agent item)"
proof -
  from r consider
    (plain) rs ms where "cell_at h (cur ! idx) = Some (MessageArr rs)"
      "read_messages h (cur ! idx) = Some ms" "item = Plain ms"
  | (request) rid msgs ms where "cell_at h (cur ! idx) = Some (RequestObj rid msgs)"
      "read_messages h msgs = Some ms" "item = Request \<lparr>request_id = rid, messages = ms\<rparr>"
    unfolding read_item_cases by blast
  then show ?thesis
  proof cases
  case plain
  note c = plain(1) and m = plain(2) and it = plain(3)
  from prependBasePrompt_store_agree[OF m p, of agent] obtain h1 out rs'
    where s: "prependBasePrompt_store agent h (cur ! idx) = (h1, out)"
      and a1: "agree p h h1" and p1: "cell_at h1 p = Some (PromptsArr cur)"
      and co: "cell_at h1 out = Some (MessageArr rs')"
      and ro: "read_messages h1 out = Some (prependBasePrompt agent ms)"
    by blast
  let ?h' = "h1[p := PromptsArr (cur[idx := out])]"
  have eq: "prepend_slot agent p idx h = ?h'"
    using i by (simp add: prepend_slot_def slots_eq[OF p] slots_eq[OF p1] c s)
  have a2: "agree p h1 ?h'" by (rule agree_update)
  have "read_item h1 out = Some (Plain (prependBasePrompt agent ms))"
    using co ro by (auto simp: read_item_cases)
  from read_item_agree[OF a2 p1 this]
  have "read_item ?h' out = Some (prepend_item agent item)"
    by (simp add: prepend_item_def it)
  moreover have "cell_at ?h' p = Some (PromptsArr (cur[idx := out]))"
    using cell_at_Some_bound[OF p1] by (rule cell_at_update_same)
  moreover have "agree p h ?h'" using a1 a2 by (rule agree_trans)
  ultimately show ?thesis unfolding eq by blast
next
  case request
  note c = request(1) and m = request(2) and it = request(3)
  from prependBasePrompt_store_agree[OF m p, of agent] obtain h1 out
    where s: "prependBasePrompt_store agent h msgs = (h1, out)"
      and a1: "agree p h h1" and p1: "cell_at h1 p = Some (PromptsArr cur)"
      and ro: "read_messages h1 out = Some (prependBasePrompt agent ms)"
    by blast
  let ?h2 = "h1 @ [RequestObj rid out]"
  let ?r = "length h1"
  let ?h' = "?h2[p := PromptsArr (cur[idx := ?r])]"
  have pl: "p < length h1" using p1 by (rule cell_at_Some_bound)
  have p2: "cell_at ?h2 p = Some (PromptsArr cur)"
    using pl by (simp add: cell_at_old p1)
  have eq: "prepend_slot agent p idx h = ?h'"
    using i by (simp add: prepend_slot_def slots_eq[OF p] slots_eq[OF p2] c s alloc_def)
  have a2: "agree p h1 ?h2" by (rule agree_append)
  have a3: "agree p ?h2 ?h'" by (rule agree_update)
  have "read_messages ?h2 out = Some (prependBasePrompt agent ms)"
    using ro by (rule read_messages_old)
  moreover have "cell_at ?h2 ?r = Some (RequestObj rid out)"
    by (simp add: cell_at_def)
  ultimately have "read_item ?h2 ?r
      = Some (Request \<lparr>request_id = rid, messages = prependBasePrompt agent ms\<rparr>)"
    by (auto simp: read_item_cases)
  from read_item_agree[OF a3 p2 this]
  have "read_item ?h' ?r = Some (prepend_item agent item)"
    by (simp add: prepend_item_def it)
  moreover have "cell_at ?h' p = Some (PromptsArr (cur[idx := ?r]))"
    using pl by (intro cell_at_update_same) simp
  moreover have "agree p h ?h'" using a1 a2 a3 by (blast intro: agree_trans)
  ultimately show ?thesis unfolding eq by blast
qed
qed

lemma createBatch_fold:
  assumes p: "cell_at h p = Some (PromptsArr rs)"
    and l: "list_all2 (\<lambda>r item. read_item h r = Some item) rs items"
    and k: "k \<le> length rs"
  shows "\<exists>cur. agree p h (fold (prepend_slot agent p) [0..<k] h)
           \<and> cell_at (fold (prepend_slot agent p) [0..<k] h) p = Some (PromptsArr cur)
           \<and> length cur = length rs
           \<and> (\<forall>i<k. read_item (fold (prepend_slot agent p) [0..<k] h) (cur ! i)
                        = Some (prepend_item agent (items ! i)))
           \<and> (\<forall>i. k \<le> i \<and> i < length rs \<longrightarrow> cur ! i = rs ! i)"
  using k
proof (induction k)
  case 0
  show ?case using p by (auto simp: agree_refl)
next
  case (Suc k)
  let ?hk = "fold (prepend_slot agent p) [0..<k] h"
  from Suc obtain cur where a: "agree p h ?hk"
    and c: "cell_at ?hk p = Some (PromptsArr cur)"
    and n: "length cur = length rs"
    and d: "\<forall>i<k. read_item ?hk (cur ! i) = Some (prepend_item agent (items ! i))"
    and u: "\<forall>i. k \<le> i \<and> i < length rs \<longrightarrow> cur ! i = rs ! i"
    by auto
  from Suc.prems have kl: "k < length rs" by simp
  with u have ck: "cur ! k = rs ! k" by simp
  from l kl have "read_item h (rs ! k) = Some (items ! k)"
    by (simp add: list_all2_conv_all_nth)
  from read_item_agree[OF a p this] ck
  have rk: "read_item ?hk (cur ! k) = Some (items ! k)" by simp
  from kl n have kc: "k < length cur" by simp
  from prepend_slot_step[OF c kc rk, of agent] obtain r'
    where a': "agree p ?hk (prepend_slot agent p k ?hk)"
      and c': "cell_at (prepend_slot agent p k ?hk) p = Some (PromptsArr (cur[k := r']))"
      and r': "read_item (prepend_slot agent p k ?hk) r' = Some (prepend_item agent (items ! k))"
    by blast
  have f: "fold (prepend_slot agent p) [0..<Suc k] h = prepend_slot agent p k ?hk"
    by simp
  have "\<forall>i<Suc k. read_item (prepend_slot agent p k ?hk) ((cur[k := r']) ! i)
                        = Some (prepend_item agent (items ! i))"
  proof (intro allI impI)
    fix i assume "i < Suc k"
    show "read_item (prepend_slot agent p k ?hk) ((cur[k := r']) ! i)
                        = Some (prepend_item agent (items ! i))"
    proof (cases "i = k")
      case True
      then show ?thesis using r' kc by simp
    next
      case False
      with \<open>i < Suc k\<close> have "i < k" by simp
      with d have "read_item ?hk (cur ! i) = Some (prepend_item agent (items ! i))" by simp
      from read_item_agree[OF a' c this] False show ?thesis by simp
    qed
  qed
  moreover have "\<forall>i. Suc k \<le> i \<and> i < length rs \<longrightarrow> (cur[k := r']) ! i = rs ! i"
    using u by auto
  moreover have "agree p h (prepend_slot agent p k ?hk)"
    using a a' by (rule agree_trans)
  moreover have "length (cur[k := r']) = length rs" using n by simp
  ultimately show ?case
    unfolding f using c' by blast
qed
lemma items_rel:
  "read_items h p = Some items \<longleftrightarrow>
     (\<exists>rs. cell_at h p = Some (PromptsArr rs)
          \<and> list_all2 (\<lambda>r item. read_item h r = Some item) rs items)"
  by (auto simp: read_items_def those_map_iff split: option.splits cell.splits)

lemma LLMAgent_prompt_effects:
  assumes r: "read_messages h msgs = Some ms"
  shows "case LLMAgent_prompt provider_prompt agent h msgs options calls of
           (h', result) \<Rightarrow>
             take (length h) h' = h
           \<and> read_messages h' msgs = Some ms
           \<and> result = provider_prompt (prependBasePrompt agent ms) (modelName agent)
                        (options\<lparr>agentName := Some (agent_name agent),
                                 sampleObj := agent_sampleObj agent\<rparr>) calls"
proof -
  from r obtain rs where c: "cell_at h msgs = Some (MessageArr rs)"
    and l: "list_all2 (\<lambda>r m. message_at h r = Some m) rs ms"
    by (auto simp: read_messages_iff)
  from prependBasePrompt_store_eq[OF c l, of agent] obtain h' out cs
    where s: "prependBasePrompt_store agent h msgs = (h', out)"
      and h': "h' = h @ cs"
      and o: "read_messages h' out = Some (prependBasePrompt agent ms)"
    by blast
  have "read_messages h' msgs = Some ms" unfolding h' by (rule read_messages_old[OF r])
  then show ?thesis
    by (simp add: LLMAgent_prompt_def s o Let_def) (simp add: h')
qed

lemma LLMAgent_createBatch_effects:
  assumes r: "read_items h prompts = Some items"
  shows "case LLMAgent_createBatch provider_createBatch agent h prompts options calls of
           (h', result) \<Rightarrow>
             length h \<le> length h'
           \<and> (\<forall>r<length h. r \<noteq> prompts \<longrightarrow> h' ! r = h ! r)
           \<and> list_all2 (\<lambda>r item. read_item h' r = Some item) (slots h prompts) items
           \<and> read_items h' prompts = Some (map (prepend_item agent) items)"
proof -
  from r obtain rs where p: "cell_at h prompts = Some (PromptsArr rs)"
    and l: "list_all2 (\<lambda>r item. read_item h r = Some item) rs items"
    by (auto simp: items_rel)
  let ?h' = "fold (prepend_slot agent prompts) [0..<length rs] h"
  from createBatch_fold[OF p l order_refl, of agent] obtain cur
    where a: "agree prompts h ?h'"
      and c: "cell_at ?h' prompts = Some (PromptsArr cur)"
      and n: "length cur = length rs"
      and d: "\<forall>i<length rs. read_item ?h' (cur ! i) = Some (prepend_item agent (items ! i))"
    by blast
  have len: "length rs = length items" using l by (rule list_all2_lengthD)
  have "list_all2 (\<lambda>r item. read_item ?h' r = Some item) cur (map (prepend_item agent) items)"
    using d n len by (simp add: list_all2_conv_all_nth)
  with c have new: "read_items ?h' prompts = Some (map (prepend_item agent) items)"
    by (auto simp: items_rel)
  have old: "list_all2 (\<lambda>r item. read_item ?h' r = Some item) rs items"
    using l by (rule list_all2_mono) (rule read_item_agree[OF a p])
  have fst: "fst (LLMAgent_createBatch provider_createBatch agent h prompts options calls) = ?h'"
    by (simp add: LLMAgent_createBatch_def Let_def slots_eq[OF p])
  show ?thesis
    using a new old unfolding agree_def
    by (cases "LLMAgent_createBatch provider_createBatch agent h prompts options calls")
       (use fst in \<open>simp add: slots_eq[OF p]\<close>)
qed

text \<open>
  What the two operations of the agent do to the store. \<open>prompt\<close> leaves every cell as it
  was, so the caller's message list is unmodified, and hands the provider a list with the
  base prompt in front. \<open>createBatch\<close> leaves every cell but the caller's array of prompts
  as it was, so each item's message list and request object is unmodified; the array of
  prompts itself is written: after the call its slots hold the prepended items.
\<close>

lemma prependBasePrompt_effects:
  "(read_messages h msgs = Some ms \<longrightarrow>
      (case LLMAgent_prompt provider_prompt agent h msgs options calls of
         (h', result) \<Rightarrow>
           take (length h) h' = h
         \<and> read_messages h' msgs = Some ms
         \<and> result = provider_prompt (prependBasePrompt agent ms) (modelName agent)
                      (options\<lparr>agentName := Some (agent_name agent),
                               sampleObj := agent_sampleObj agent\<rparr>) calls))
   \<and> (read_items h prompts = Some items \<longrightarrow>
      (case LLMAgent_createBatch provider_createBatch agent h prompts batch_options calls of
         (h', result) \<Rightarrow>
           length h \<le> length h'
         \<and> (\<forall>r<length h. r \<noteq> prompts \<longrightarrow> h' ! r = h ! r)
         \<and> list_all2 (\<lambda>r item. read_item h' r = Some item) (slots h prompts) items
         \<and> read_items h' prompts = Some (map (prepend_item agent) items)))"
proof (intro conjI impI)
  assume "read_messages h msgs = Some ms"
  then show "case LLMAgent_prompt provider_prompt agent h msgs options calls of
         (h', result) \<Rightarrow>
           take (length h) h' = h
         \<and> read_messages h' msgs = Some ms
         \<and> result = provider_prompt (prependBasePrompt agent ms) (modelName agent)
                      (options\<lparr>agentName := Some (agent_name agent),
                               sampleObj := agent_sampleObj agent\<rparr>) calls"
    by (rule LLMAgent_prompt_effects)
next
  assume "read_items h prompts = Some items"
  then show "case LLMAgent_createBatch provider_createBatch agent h prompts batch_options calls of
         (h', result) \<Rightarrow>
           length h \<le> length h'
         \<and> (\<forall>r<length h. r \<noteq> prompts \<longrightarrow> h' ! r = h ! r)
         \<and> list_all2 (\<lambda>r item. read_item h' r = Some item) (slots h prompts) items
         \<and> read_items h' prompts = Some (map (prepend_item agent) items)"
    by (rule LLMAgent_createBatch_effects)
qed

lemma batch_store_items:
  "read_items batch_store 4 = Some [Plain [france_question], Plain [germany_question]]"
  by (simp add: read_items_def read_item_def read_messages_def message_at_def cell_at_def
      batch_store_def)

lemma batch_store_after:
  "fst (LLMAgent_createBatch (Google_agent_createBatch P this) sample_agent batch_store 4
          no_batch_options [])
     = [MessageObj france_question, MessageArr [0],
        MessageObj germany_question, MessageArr [2],
        PromptsArr [6, 8],
        MessageObj helpful, MessageArr [5, 0],
        MessageObj helpful, MessageArr [7, 2]]"
  by (simp add: LLMAgent_createBatch_def Let_def slots_def cell_at_def batch_store_def
      prepend_slot_def prependBasePrompt_store_def alloc_def elements_def has_role_def
      message_at_def sample_agent_def helpful_def france_question_def germany_question_def
      upt_rec nth_append)

lemma snd_LLMAgent_createBatch:
  "snd (LLMAgent_createBatch provider_createBatch agent h prompts options calls) =
     (case read_items
             (fst (LLMAgent_createBatch provider_createBatch agent h prompts options calls))
             prompts of
        None \<Rightarrow> (Inl TypeError, calls)
      | Some items \<Rightarrow>
          (case provider_createBatch items (modelName agent)
                  (options\<lparr>agentName := Some (agent_name agent),
                           sampleObj := agent_sampleObj agent\<rparr>) calls of
             (Inl err, calls') \<Rightarrow>
               if agent_provider agent = Google
               then (Inl (Error (unsupported agent)), calls')
               else (Inl err, calls')
           | (Inr r, calls') \<Rightarrow> (Inr r, calls')))"
  by (simp add: LLMAgent_createBatch_def Let_def)

lemma batch_store_after_items:
  "read_items
     [MessageObj france_question, MessageArr [0],
      MessageObj germany_question, MessageArr [2],
      PromptsArr [6, 8],
      MessageObj helpful, MessageArr [5, 0],
      MessageObj helpful, MessageArr [7, 2]] 4
     = Some [Plain [helpful, france_question], Plain [helpful, germany_question]]"
  by (simp add: read_items_def read_item_def read_messages_def message_at_def cell_at_def)

text \<open>
  Claim C5 at an input where the code departs from it. \<open>createBatch\<close> assigns
  \<open>prompts[idx] = ...\<close> in the array it was given, where \<open>prompt\<close> and \<open>prependBasePrompt\<close>
  build new lists: the caller's array of two prompts holds, after the call, two other
  lists, each with the base prompt in front.
\<close>

theorem createBatch_overwrites_prompts:
  "read_items batch_store 4 = Some [Plain [france_question], Plain [germany_question]]
   \<and> read_items
        (fst (LLMAgent_createBatch
                (Google_agent_createBatch (sample_platform ''Paris'' []) sample_provider)
                sample_agent batch_store 4 no_batch_options [])) 4
       = Some [Plain [helpful, france_question], Plain [helpful, germany_question]]
   \<and> batch_store ! 4 = PromptsArr [1, 3]
   \<and> fst (LLMAgent_createBatch
             (Google_agent_createBatch (sample_platform ''Paris'' []) sample_provider)
             sample_agent batch_store 4 no_batch_options []) ! 4
       = PromptsArr [6, 8]"
  unfolding batch_store_after batch_store_after_items batch_store_items
  by (simp add: batch_store_def)

lemma prependBasePrompt_effects_example:
  "read_messages batch_store 1 = Some [france_question]
   \<and> fst (LLMAgent_prompt (Google_prompt (sample_platform ''Paris'' []) sample_provider)
            sample_agent batch_store 1 no_options [])
       = batch_store @ [MessageObj helpful, MessageArr [5, 0]]
   \<and> read_messages
        (fst (LLMAgent_prompt (Google_prompt (sample_platform ''Paris'' []) sample_provider)
                sample_agent batch_store 1 no_options [])) 6
       = Some [helpful, france_question]
   \<and> read_items batch_store 4 = Some [Plain [france_question], Plain [germany_question]]
   \<and> snd (LLMAgent_createBatch
             (Google_agent_createBatch (sample_platform ''Paris'' []) sample_provider)
             sample_agent batch_store 4 no_batch_options [])
       = (Inl (Error (unsupported sample_agent)), [])"
proof -
  have m: "read_messages batch_store 1 = Some [france_question]"
    by (simp add: read_messages_def message_at_def cell_at_def batch_store_def)
  have p: "fst (LLMAgent_prompt (Google_prompt (sample_platform ''Paris'' []) sample_provider)
            sample_agent batch_store 1 no_options [])
       = batch_store @ [MessageObj helpful, MessageArr [5, 0]]"
    by (simp add: LLMAgent_prompt_def Let_def prependBasePrompt_store_def alloc_def
        elements_def has_role_def message_at_def cell_at_def batch_store_def sample_agent_def
        helpful_def france_question_def nth_append)
  have q: "read_messages (batch_store @ [MessageObj helpful, MessageArr [5, 0]]) 6
       = Some [helpful, france_question]"
    by (simp add: read_messages_def message_at_def cell_at_def batch_store_def nth_append)
  have g: "Google_agent_createBatch (sample_platform ''Paris'' []) sample_provider items
        (modelName sample_agent) batch_options []
      = (Inl (Error (''Batch requests are not supported by the Google Gemini API for model ''
                     @ Gemini2Flash)), [])" for items batch_options
    by (simp add: Google_agent_createBatch_def Google_createBatch_def Google_getModels_def
        sample_agent_def)
  have a: "agent_provider sample_agent = Google" by (simp add: sample_agent_def)
  have c: "snd (LLMAgent_createBatch
             (Google_agent_createBatch (sample_platform ''Paris'' []) sample_provider)
             sample_agent batch_store 4 no_batch_options [])
       = (Inl (Error (unsupported sample_agent)), [])"
    unfolding snd_LLMAgent_createBatch batch_store_after batch_store_after_items g
    by (simp add: a)
  show ?thesis
    using prependBasePrompt_effects [of batch_store 1 "[france_question]"
        "Google_prompt (sample_platform ''Paris'' []) sample_provider" sample_agent no_options
        "[]" 4 "[Plain [france_question], Plain [germany_question]]"
        "Google_agent_createBatch (sample_platform ''Paris'' []) sample_provider"
        no_batch_options]
      m p q c batch_store_items
    by simp
qed

end
